theory Spec2Isabelle
  imports Main "HOL-Library.Word" "HOL-Library.Multiset"
begin

section \<open>The system relation pg_aggregate\<close>

text \<open>
  The header \<^verbatim>\<open>src/include/catalog/pg_aggregate.h\<close> declares the relation
  \<^verbatim>\<open>pg_aggregate\<close> and, in its \<^verbatim>\<open>DATA(insert ( ... ))\<close> statements, the
  relation's initial contents. The embedding keeps both: the tuple format as a record with
  the twenty attributes of \<^verbatim>\<open>FormData_pg_aggregate\<close>, in the order of the
  \<^verbatim>\<open>Anum_pg_aggregate_*\<close> constants, and every DATA row as a value of that record.
\<close>

subsection \<open>Attribute types\<close>

text \<open>
  \<^verbatim>\<open>Oid\<close> is an unsigned 32-bit integer, \<^verbatim>\<open>int16\<close> and \<^verbatim>\<open>int32\<close> are
  machine integers. A \<^verbatim>\<open>regproc\<close> attribute is written in a DATA row as the name of
  the function, and as \<^verbatim>\<open>-\<close> where the header's field comments say ``0 if none'';
  the embedding keeps that text. The attribute \<^verbatim>\<open>aggfnoid\<close> alone is written as a
  number in every row and is kept as the \<^verbatim>\<open>Oid\<close> it denotes. The two
  variable-length \<^verbatim>\<open>text\<close> attributes are written as a quoted literal or as
  \<^verbatim>\<open>_null_\<close> (``can be NULL''), here \<open>Some\<close> of the literal or \<open>None\<close>.
\<close>

type_synonym Oid = "32 word"
type_synonym int16 = "16 word"
type_synonym int32 = "32 word"
type_synonym regproc = string

record FormData_pg_aggregate =
  aggfnoid :: Oid
  aggkind :: char
  aggnumdirectargs :: int16
  aggtransfn :: regproc
  aggfinalfn :: regproc
  aggcombinefn :: regproc
  aggserialfn :: regproc
  aggdeserialfn :: regproc
  aggmtransfn :: regproc
  aggminvtransfn :: regproc
  aggmfinalfn :: regproc
  aggfinalextra :: bool
  aggmfinalextra :: bool
  aggsortop :: Oid
  aggtranstype :: Oid
  aggtransspace :: int32
  aggmtranstype :: Oid
  aggmtransspace :: int32
  agginitval :: "string option"
  aggminitval :: "string option"

subsection \<open>Compiler constants\<close>

definition AggregateRelationId :: Oid where
  "AggregateRelationId = 2600"

definition Natts_pg_aggregate :: nat where
  "Natts_pg_aggregate = 20"

definition AGGKIND_NORMAL :: char where
  "AGGKIND_NORMAL = CHR ''n''"

definition AGGKIND_ORDERED_SET :: char where
  "AGGKIND_ORDERED_SET = CHR ''o''"

definition AGGKIND_HYPOTHETICAL :: char where
  "AGGKIND_HYPOTHETICAL = CHR ''h''"

text \<open>The macro testing for ``ordered-set agg including hypothetical case''.\<close>

definition AGGKIND_IS_ORDERED_SET :: "char \<Rightarrow> bool" where
  "AGGKIND_IS_ORDERED_SET kind = (kind \<noteq> AGGKIND_NORMAL)"

definition AGGFNOID_COUNT_ANY :: Oid where
  "AGGFNOID_COUNT_ANY = 2147"

definition AGGFNOID_SUM_BIGINT :: Oid where
  "AGGFNOID_SUM_BIGINT = 2107"

text \<open>
  A function slot is present when its DATA text is not the placeholder \<^verbatim>\<open>-\<close>, and a
  type slot when it is not the invalid Oid 0 (``0 if none'').
\<close>

definition regproc_present :: "regproc \<Rightarrow> bool" where
  "regproc_present f = (f \<noteq> ''-'')"

definition oid_present :: "Oid \<Rightarrow> bool" where
  "oid_present t = (t \<noteq> 0)"

subsection \<open>Initial contents\<close>

text \<open>
  One definition per DATA row, named after the row's \<^verbatim>\<open>aggfnoid\<close>, and one list per
  commented group of rows of the header.
\<close>

subsubsection \<open>avg\<close>

definition agg_2100 :: FormData_pg_aggregate where
  "agg_2100 = \<lparr>aggfnoid = 2100, aggkind = CHR ''n'', aggnumdirectargs = 0,
     aggtransfn = ''int8_avg_accum'', aggfinalfn = ''numeric_poly_avg'',
     aggcombinefn = ''int8_avg_combine'', aggserialfn = ''int8_avg_serialize'',
     aggdeserialfn = ''int8_avg_deserialize'', aggmtransfn = ''int8_avg_accum'',
     aggminvtransfn = ''int8_avg_accum_inv'', aggmfinalfn = ''numeric_poly_avg'',
     aggfinalextra = False, aggmfinalextra = False, aggsortop = 0, aggtranstype = 2281,
     aggtransspace = 48, aggmtranstype = 2281, aggmtransspace = 48, agginitval = None,
     aggminitval = None\<rparr>"

definition agg_2101 :: FormData_pg_aggregate where
  "agg_2101 = \<lparr>aggfnoid = 2101, aggkind = CHR ''n'', aggnumdirectargs = 0,
     aggtransfn = ''int4_avg_accum'', aggfinalfn = ''int8_avg'',
     aggcombinefn = ''int4_avg_combine'', aggserialfn = ''-'', aggdeserialfn = ''-'',
     aggmtransfn = ''int4_avg_accum'', aggminvtransfn = ''int4_avg_accum_inv'',
     aggmfinalfn = ''int8_avg'', aggfinalextra = False, aggmfinalextra = False, aggsortop = 0,
     aggtranstype = 1016, aggtransspace = 0, aggmtranstype = 1016, aggmtransspace = 0,
     agginitval = Some ''{0,0}'', aggminitval = Some ''{0,0}''\<rparr>"

definition agg_2102 :: FormData_pg_aggregate where
  "agg_2102 = \<lparr>aggfnoid = 2102, aggkind = CHR ''n'', aggnumdirectargs = 0,
     aggtransfn = ''int2_avg_accum'', aggfinalfn = ''int8_avg'',
     aggcombinefn = ''int4_avg_combine'', aggserialfn = ''-'', aggdeserialfn = ''-'',
     aggmtransfn = ''int2_avg_accum'', aggminvtransfn = ''int2_avg_accum_inv'',
     aggmfinalfn = ''int8_avg'', aggfinalextra = False, aggmfinalextra = False, aggsortop = 0,
     aggtranstype = 1016, aggtransspace = 0, aggmtranstype = 1016, aggmtransspace = 0,
     agginitval = Some ''{0,0}'', aggminitval = Some ''{0,0}''\<rparr>"

definition agg_2103 :: FormData_pg_aggregate where
  "agg_2103 = \<lparr>aggfnoid = 2103, aggkind = CHR ''n'', aggnumdirectargs = 0,
     aggtransfn = ''numeric_avg_accum'', aggfinalfn = ''numeric_avg'',
     aggcombinefn = ''numeric_avg_combine'', aggserialfn = ''numeric_avg_serialize'',
     aggdeserialfn = ''numeric_avg_deserialize'', aggmtransfn = ''numeric_avg_accum'',
     aggminvtransfn = ''numeric_accum_inv'', aggmfinalfn = ''numeric_avg'',
     aggfinalextra = False, aggmfinalextra = False, aggsortop = 0, aggtranstype = 2281,
     aggtransspace = 128, aggmtranstype = 2281, aggmtransspace = 128, agginitval = None,
     aggminitval = None\<rparr>"

definition agg_2104 :: FormData_pg_aggregate where
  "agg_2104 = \<lparr>aggfnoid = 2104, aggkind = CHR ''n'', aggnumdirectargs = 0,
     aggtransfn = ''float4_accum'', aggfinalfn = ''float8_avg'',
     aggcombinefn = ''float8_combine'', aggserialfn = ''-'', aggdeserialfn = ''-'',
     aggmtransfn = ''-'', aggminvtransfn = ''-'', aggmfinalfn = ''-'', aggfinalextra = False,
     aggmfinalextra = False, aggsortop = 0, aggtranstype = 1022, aggtransspace = 0,
     aggmtranstype = 0, aggmtransspace = 0, agginitval = Some ''{0,0,0}'',
     aggminitval = None\<rparr>"

definition agg_2105 :: FormData_pg_aggregate where
  "agg_2105 = \<lparr>aggfnoid = 2105, aggkind = CHR ''n'', aggnumdirectargs = 0,
     aggtransfn = ''float8_accum'', aggfinalfn = ''float8_avg'',
     aggcombinefn = ''float8_combine'', aggserialfn = ''-'', aggdeserialfn = ''-'',
     aggmtransfn = ''-'', aggminvtransfn = ''-'', aggmfinalfn = ''-'', aggfinalextra = False,
     aggmfinalextra = False, aggsortop = 0, aggtranstype = 1022, aggtransspace = 0,
     aggmtranstype = 0, aggmtransspace = 0, agginitval = Some ''{0,0,0}'',
     aggminitval = None\<rparr>"

definition agg_2106 :: FormData_pg_aggregate where
  "agg_2106 = \<lparr>aggfnoid = 2106, aggkind = CHR ''n'', aggnumdirectargs = 0,
     aggtransfn = ''interval_accum'', aggfinalfn = ''interval_avg'',
     aggcombinefn = ''interval_combine'', aggserialfn = ''-'', aggdeserialfn = ''-'',
     aggmtransfn = ''interval_accum'', aggminvtransfn = ''interval_accum_inv'',
     aggmfinalfn = ''interval_avg'', aggfinalextra = False, aggmfinalextra = False,
     aggsortop = 0, aggtranstype = 1187, aggtransspace = 0, aggmtranstype = 1187,
     aggmtransspace = 0, agginitval = Some ''{0 second,0 second}'',
     aggminitval = Some ''{0 second,0 second}''\<rparr>"

definition avg_rows :: "FormData_pg_aggregate list" where
  "avg_rows = [agg_2100, agg_2101, agg_2102, agg_2103, agg_2104, agg_2105, agg_2106]"

subsubsection \<open>sum\<close>

definition agg_2107 :: FormData_pg_aggregate where
  "agg_2107 = \<lparr>aggfnoid = 2107, aggkind = CHR ''n'', aggnumdirectargs = 0,
     aggtransfn = ''int8_avg_accum'', aggfinalfn = ''numeric_poly_sum'',
     aggcombinefn = ''int8_avg_combine'', aggserialfn = ''int8_avg_serialize'',
     aggdeserialfn = ''int8_avg_deserialize'', aggmtransfn = ''int8_avg_accum'',
     aggminvtransfn = ''int8_avg_accum_inv'', aggmfinalfn = ''numeric_poly_sum'',
     aggfinalextra = False, aggmfinalextra = False, aggsortop = 0, aggtranstype = 2281,
     aggtransspace = 48, aggmtranstype = 2281, aggmtransspace = 48, agginitval = None,
     aggminitval = None\<rparr>"

definition agg_2108 :: FormData_pg_aggregate where
  "agg_2108 = \<lparr>aggfnoid = 2108, aggkind = CHR ''n'', aggnumdirectargs = 0,
     aggtransfn = ''int4_sum'', aggfinalfn = ''-'', aggcombinefn = ''int8pl'',
     aggserialfn = ''-'', aggdeserialfn = ''-'', aggmtransfn = ''int4_avg_accum'',
     aggminvtransfn = ''int4_avg_accum_inv'', aggmfinalfn = ''int2int4_sum'',
     aggfinalextra = False, aggmfinalextra = False, aggsortop = 0, aggtranstype = 20,
     aggtransspace = 0, aggmtranstype = 1016, aggmtransspace = 0, agginitval = None,
     aggminitval = Some ''{0,0}''\<rparr>"

definition agg_2109 :: FormData_pg_aggregate where
  "agg_2109 = \<lparr>aggfnoid = 2109, aggkind = CHR ''n'', aggnumdirectargs = 0,
     aggtransfn = ''int2_sum'', aggfinalfn = ''-'', aggcombinefn = ''int8pl'',
     aggserialfn = ''-'', aggdeserialfn = ''-'', aggmtransfn = ''int2_avg_accum'',
     aggminvtransfn = ''int2_avg_accum_inv'', aggmfinalfn = ''int2int4_sum'',
     aggfinalextra = False, aggmfinalextra = False, aggsortop = 0, aggtranstype = 20,
     aggtransspace = 0, aggmtranstype = 1016, aggmtransspace = 0, agginitval = None,
     aggminitval = Some ''{0,0}''\<rparr>"

definition agg_2110 :: FormData_pg_aggregate where
  "agg_2110 = \<lparr>aggfnoid = 2110, aggkind = CHR ''n'', aggnumdirectargs = 0,
     aggtransfn = ''float4pl'', aggfinalfn = ''-'', aggcombinefn = ''float4pl'',
     aggserialfn = ''-'', aggdeserialfn = ''-'', aggmtransfn = ''-'', aggminvtransfn = ''-'',
     aggmfinalfn = ''-'', aggfinalextra = False, aggmfinalextra = False, aggsortop = 0,
     aggtranstype = 700, aggtransspace = 0, aggmtranstype = 0, aggmtransspace = 0,
     agginitval = None, aggminitval = None\<rparr>"

definition agg_2111 :: FormData_pg_aggregate where
  "agg_2111 = \<lparr>aggfnoid = 2111, aggkind = CHR ''n'', aggnumdirectargs = 0,
     aggtransfn = ''float8pl'', aggfinalfn = ''-'', aggcombinefn = ''float8pl'',
     aggserialfn = ''-'', aggdeserialfn = ''-'', aggmtransfn = ''-'', aggminvtransfn = ''-'',
     aggmfinalfn = ''-'', aggfinalextra = False, aggmfinalextra = False, aggsortop = 0,
     aggtranstype = 701, aggtransspace = 0, aggmtranstype = 0, aggmtransspace = 0,
     agginitval = None, aggminitval = None\<rparr>"

definition agg_2112 :: FormData_pg_aggregate where
  "agg_2112 = \<lparr>aggfnoid = 2112, aggkind = CHR ''n'', aggnumdirectargs = 0,
     aggtransfn = ''cash_pl'', aggfinalfn = ''-'', aggcombinefn = ''cash_pl'',
     aggserialfn = ''-'', aggdeserialfn = ''-'', aggmtransfn = ''cash_pl'',
     aggminvtransfn = ''cash_mi'', aggmfinalfn = ''-'', aggfinalextra = False,
     aggmfinalextra = False, aggsortop = 0, aggtranstype = 790, aggtransspace = 0,
     aggmtranstype = 790, aggmtransspace = 0, agginitval = None, aggminitval = None\<rparr>"

definition agg_2113 :: FormData_pg_aggregate where
  "agg_2113 = \<lparr>aggfnoid = 2113, aggkind = CHR ''n'', aggnumdirectargs = 0,
     aggtransfn = ''interval_pl'', aggfinalfn = ''-'', aggcombinefn = ''interval_pl'',
     aggserialfn = ''-'', aggdeserialfn = ''-'', aggmtransfn = ''interval_pl'',
     aggminvtransfn = ''interval_mi'', aggmfinalfn = ''-'', aggfinalextra = False,
     aggmfinalextra = False, aggsortop = 0, aggtranstype = 1186, aggtransspace = 0,
     aggmtranstype = 1186, aggmtransspace = 0, agginitval = None, aggminitval = None\<rparr>"

definition agg_2114 :: FormData_pg_aggregate where
  "agg_2114 = \<lparr>aggfnoid = 2114, aggkind = CHR ''n'', aggnumdirectargs = 0,
     aggtransfn = ''numeric_avg_accum'', aggfinalfn = ''numeric_sum'',
     aggcombinefn = ''numeric_avg_combine'', aggserialfn = ''numeric_avg_serialize'',
     aggdeserialfn = ''numeric_avg_deserialize'', aggmtransfn = ''numeric_avg_accum'',
     aggminvtransfn = ''numeric_accum_inv'', aggmfinalfn = ''numeric_sum'',
     aggfinalextra = False, aggmfinalextra = False, aggsortop = 0, aggtranstype = 2281,
     aggtransspace = 128, aggmtranstype = 2281, aggmtransspace = 128, agginitval = None,
     aggminitval = None\<rparr>"

definition sum_rows :: "FormData_pg_aggregate list" where
  "sum_rows = [agg_2107, agg_2108, agg_2109, agg_2110, agg_2111, agg_2112, agg_2113, agg_2114]"

subsubsection \<open>max\<close>

definition agg_2115 :: FormData_pg_aggregate where
  "agg_2115 = \<lparr>aggfnoid = 2115, aggkind = CHR ''n'', aggnumdirectargs = 0,
     aggtransfn = ''int8larger'', aggfinalfn = ''-'', aggcombinefn = ''int8larger'',
     aggserialfn = ''-'', aggdeserialfn = ''-'', aggmtransfn = ''-'', aggminvtransfn = ''-'',
     aggmfinalfn = ''-'', aggfinalextra = False, aggmfinalextra = False, aggsortop = 413,
     aggtranstype = 20, aggtransspace = 0, aggmtranstype = 0, aggmtransspace = 0,
     agginitval = None, aggminitval = None\<rparr>"

definition agg_2116 :: FormData_pg_aggregate where
  "agg_2116 = \<lparr>aggfnoid = 2116, aggkind = CHR ''n'', aggnumdirectargs = 0,
     aggtransfn = ''int4larger'', aggfinalfn = ''-'', aggcombinefn = ''int4larger'',
     aggserialfn = ''-'', aggdeserialfn = ''-'', aggmtransfn = ''-'', aggminvtransfn = ''-'',
     aggmfinalfn = ''-'', aggfinalextra = False, aggmfinalextra = False, aggsortop = 521,
     aggtranstype = 23, aggtransspace = 0, aggmtranstype = 0, aggmtransspace = 0,
     agginitval = None, aggminitval = None\<rparr>"

definition agg_2117 :: FormData_pg_aggregate where
  "agg_2117 = \<lparr>aggfnoid = 2117, aggkind = CHR ''n'', aggnumdirectargs = 0,
     aggtransfn = ''int2larger'', aggfinalfn = ''-'', aggcombinefn = ''int2larger'',
     aggserialfn = ''-'', aggdeserialfn = ''-'', aggmtransfn = ''-'', aggminvtransfn = ''-'',
     aggmfinalfn = ''-'', aggfinalextra = False, aggmfinalextra = False, aggsortop = 520,
     aggtranstype = 21, aggtransspace = 0, aggmtranstype = 0, aggmtransspace = 0,
     agginitval = None, aggminitval = None\<rparr>"

definition agg_2118 :: FormData_pg_aggregate where
  "agg_2118 = \<lparr>aggfnoid = 2118, aggkind = CHR ''n'', aggnumdirectargs = 0,
     aggtransfn = ''oidlarger'', aggfinalfn = ''-'', aggcombinefn = ''oidlarger'',
     aggserialfn = ''-'', aggdeserialfn = ''-'', aggmtransfn = ''-'', aggminvtransfn = ''-'',
     aggmfinalfn = ''-'', aggfinalextra = False, aggmfinalextra = False, aggsortop = 610,
     aggtranstype = 26, aggtransspace = 0, aggmtranstype = 0, aggmtransspace = 0,
     agginitval = None, aggminitval = None\<rparr>"

definition agg_2119 :: FormData_pg_aggregate where
  "agg_2119 = \<lparr>aggfnoid = 2119, aggkind = CHR ''n'', aggnumdirectargs = 0,
     aggtransfn = ''float4larger'', aggfinalfn = ''-'', aggcombinefn = ''float4larger'',
     aggserialfn = ''-'', aggdeserialfn = ''-'', aggmtransfn = ''-'', aggminvtransfn = ''-'',
     aggmfinalfn = ''-'', aggfinalextra = False, aggmfinalextra = False, aggsortop = 623,
     aggtranstype = 700, aggtransspace = 0, aggmtranstype = 0, aggmtransspace = 0,
     agginitval = None, aggminitval = None\<rparr>"

definition agg_2120 :: FormData_pg_aggregate where
  "agg_2120 = \<lparr>aggfnoid = 2120, aggkind = CHR ''n'', aggnumdirectargs = 0,
     aggtransfn = ''float8larger'', aggfinalfn = ''-'', aggcombinefn = ''float8larger'',
     aggserialfn = ''-'', aggdeserialfn = ''-'', aggmtransfn = ''-'', aggminvtransfn = ''-'',
     aggmfinalfn = ''-'', aggfinalextra = False, aggmfinalextra = False, aggsortop = 674,
     aggtranstype = 701, aggtransspace = 0, aggmtranstype = 0, aggmtransspace = 0,
     agginitval = None, aggminitval = None\<rparr>"

definition agg_2121 :: FormData_pg_aggregate where
  "agg_2121 = \<lparr>aggfnoid = 2121, aggkind = CHR ''n'', aggnumdirectargs = 0,
     aggtransfn = ''int4larger'', aggfinalfn = ''-'', aggcombinefn = ''int4larger'',
     aggserialfn = ''-'', aggdeserialfn = ''-'', aggmtransfn = ''-'', aggminvtransfn = ''-'',
     aggmfinalfn = ''-'', aggfinalextra = False, aggmfinalextra = False, aggsortop = 563,
     aggtranstype = 702, aggtransspace = 0, aggmtranstype = 0, aggmtransspace = 0,
     agginitval = None, aggminitval = None\<rparr>"

definition agg_2122 :: FormData_pg_aggregate where
  "agg_2122 = \<lparr>aggfnoid = 2122, aggkind = CHR ''n'', aggnumdirectargs = 0,
     aggtransfn = ''date_larger'', aggfinalfn = ''-'', aggcombinefn = ''date_larger'',
     aggserialfn = ''-'', aggdeserialfn = ''-'', aggmtransfn = ''-'', aggminvtransfn = ''-'',
     aggmfinalfn = ''-'', aggfinalextra = False, aggmfinalextra = False, aggsortop = 1097,
     aggtranstype = 1082, aggtransspace = 0, aggmtranstype = 0, aggmtransspace = 0,
     agginitval = None, aggminitval = None\<rparr>"

definition agg_2123 :: FormData_pg_aggregate where
  "agg_2123 = \<lparr>aggfnoid = 2123, aggkind = CHR ''n'', aggnumdirectargs = 0,
     aggtransfn = ''time_larger'', aggfinalfn = ''-'', aggcombinefn = ''time_larger'',
     aggserialfn = ''-'', aggdeserialfn = ''-'', aggmtransfn = ''-'', aggminvtransfn = ''-'',
     aggmfinalfn = ''-'', aggfinalextra = False, aggmfinalextra = False, aggsortop = 1112,
     aggtranstype = 1083, aggtransspace = 0, aggmtranstype = 0, aggmtransspace = 0,
     agginitval = None, aggminitval = None\<rparr>"

definition agg_2124 :: FormData_pg_aggregate where
  "agg_2124 = \<lparr>aggfnoid = 2124, aggkind = CHR ''n'', aggnumdirectargs = 0,
     aggtransfn = ''timetz_larger'', aggfinalfn = ''-'', aggcombinefn = ''timetz_larger'',
     aggserialfn = ''-'', aggdeserialfn = ''-'', aggmtransfn = ''-'', aggminvtransfn = ''-'',
     aggmfinalfn = ''-'', aggfinalextra = False, aggmfinalextra = False, aggsortop = 1554,
     aggtranstype = 1266, aggtransspace = 0, aggmtranstype = 0, aggmtransspace = 0,
     agginitval = None, aggminitval = None\<rparr>"

definition agg_2125 :: FormData_pg_aggregate where
  "agg_2125 = \<lparr>aggfnoid = 2125, aggkind = CHR ''n'', aggnumdirectargs = 0,
     aggtransfn = ''cashlarger'', aggfinalfn = ''-'', aggcombinefn = ''cashlarger'',
     aggserialfn = ''-'', aggdeserialfn = ''-'', aggmtransfn = ''-'', aggminvtransfn = ''-'',
     aggmfinalfn = ''-'', aggfinalextra = False, aggmfinalextra = False, aggsortop = 903,
     aggtranstype = 790, aggtransspace = 0, aggmtranstype = 0, aggmtransspace = 0,
     agginitval = None, aggminitval = None\<rparr>"

definition agg_2126 :: FormData_pg_aggregate where
  "agg_2126 = \<lparr>aggfnoid = 2126, aggkind = CHR ''n'', aggnumdirectargs = 0,
     aggtransfn = ''timestamp_larger'', aggfinalfn = ''-'',
     aggcombinefn = ''timestamp_larger'', aggserialfn = ''-'', aggdeserialfn = ''-'',
     aggmtransfn = ''-'', aggminvtransfn = ''-'', aggmfinalfn = ''-'', aggfinalextra = False,
     aggmfinalextra = False, aggsortop = 2064, aggtranstype = 1114, aggtransspace = 0,
     aggmtranstype = 0, aggmtransspace = 0, agginitval = None, aggminitval = None\<rparr>"

definition agg_2127 :: FormData_pg_aggregate where
  "agg_2127 = \<lparr>aggfnoid = 2127, aggkind = CHR ''n'', aggnumdirectargs = 0,
     aggtransfn = ''timestamptz_larger'', aggfinalfn = ''-'',
     aggcombinefn = ''timestamptz_larger'', aggserialfn = ''-'', aggdeserialfn = ''-'',
     aggmtransfn = ''-'', aggminvtransfn = ''-'', aggmfinalfn = ''-'', aggfinalextra = False,
     aggmfinalextra = False, aggsortop = 1324, aggtranstype = 1184, aggtransspace = 0,
     aggmtranstype = 0, aggmtransspace = 0, agginitval = None, aggminitval = None\<rparr>"

definition agg_2128 :: FormData_pg_aggregate where
  "agg_2128 = \<lparr>aggfnoid = 2128, aggkind = CHR ''n'', aggnumdirectargs = 0,
     aggtransfn = ''interval_larger'', aggfinalfn = ''-'', aggcombinefn = ''interval_larger'',
     aggserialfn = ''-'', aggdeserialfn = ''-'', aggmtransfn = ''-'', aggminvtransfn = ''-'',
     aggmfinalfn = ''-'', aggfinalextra = False, aggmfinalextra = False, aggsortop = 1334,
     aggtranstype = 1186, aggtransspace = 0, aggmtranstype = 0, aggmtransspace = 0,
     agginitval = None, aggminitval = None\<rparr>"

definition agg_2129 :: FormData_pg_aggregate where
  "agg_2129 = \<lparr>aggfnoid = 2129, aggkind = CHR ''n'', aggnumdirectargs = 0,
     aggtransfn = ''text_larger'', aggfinalfn = ''-'', aggcombinefn = ''text_larger'',
     aggserialfn = ''-'', aggdeserialfn = ''-'', aggmtransfn = ''-'', aggminvtransfn = ''-'',
     aggmfinalfn = ''-'', aggfinalextra = False, aggmfinalextra = False, aggsortop = 666,
     aggtranstype = 25, aggtransspace = 0, aggmtranstype = 0, aggmtransspace = 0,
     agginitval = None, aggminitval = None\<rparr>"

definition agg_2130 :: FormData_pg_aggregate where
  "agg_2130 = \<lparr>aggfnoid = 2130, aggkind = CHR ''n'', aggnumdirectargs = 0,
     aggtransfn = ''numeric_larger'', aggfinalfn = ''-'', aggcombinefn = ''numeric_larger'',
     aggserialfn = ''-'', aggdeserialfn = ''-'', aggmtransfn = ''-'', aggminvtransfn = ''-'',
     aggmfinalfn = ''-'', aggfinalextra = False, aggmfinalextra = False, aggsortop = 1756,
     aggtranstype = 1700, aggtransspace = 0, aggmtranstype = 0, aggmtransspace = 0,
     agginitval = None, aggminitval = None\<rparr>"

definition agg_2050 :: FormData_pg_aggregate where
  "agg_2050 = \<lparr>aggfnoid = 2050, aggkind = CHR ''n'', aggnumdirectargs = 0,
     aggtransfn = ''array_larger'', aggfinalfn = ''-'', aggcombinefn = ''array_larger'',
     aggserialfn = ''-'', aggdeserialfn = ''-'', aggmtransfn = ''-'', aggminvtransfn = ''-'',
     aggmfinalfn = ''-'', aggfinalextra = False, aggmfinalextra = False, aggsortop = 1073,
     aggtranstype = 2277, aggtransspace = 0, aggmtranstype = 0, aggmtransspace = 0,
     agginitval = None, aggminitval = None\<rparr>"

definition agg_2244 :: FormData_pg_aggregate where
  "agg_2244 = \<lparr>aggfnoid = 2244, aggkind = CHR ''n'', aggnumdirectargs = 0,
     aggtransfn = ''bpchar_larger'', aggfinalfn = ''-'', aggcombinefn = ''bpchar_larger'',
     aggserialfn = ''-'', aggdeserialfn = ''-'', aggmtransfn = ''-'', aggminvtransfn = ''-'',
     aggmfinalfn = ''-'', aggfinalextra = False, aggmfinalextra = False, aggsortop = 1060,
     aggtranstype = 1042, aggtransspace = 0, aggmtranstype = 0, aggmtransspace = 0,
     agginitval = None, aggminitval = None\<rparr>"

definition agg_2797 :: FormData_pg_aggregate where
  "agg_2797 = \<lparr>aggfnoid = 2797, aggkind = CHR ''n'', aggnumdirectargs = 0,
     aggtransfn = ''tidlarger'', aggfinalfn = ''-'', aggcombinefn = ''tidlarger'',
     aggserialfn = ''-'', aggdeserialfn = ''-'', aggmtransfn = ''-'', aggminvtransfn = ''-'',
     aggmfinalfn = ''-'', aggfinalextra = False, aggmfinalextra = False, aggsortop = 2800,
     aggtranstype = 27, aggtransspace = 0, aggmtranstype = 0, aggmtransspace = 0,
     agginitval = None, aggminitval = None\<rparr>"

definition agg_3526 :: FormData_pg_aggregate where
  "agg_3526 = \<lparr>aggfnoid = 3526, aggkind = CHR ''n'', aggnumdirectargs = 0,
     aggtransfn = ''enum_larger'', aggfinalfn = ''-'', aggcombinefn = ''enum_larger'',
     aggserialfn = ''-'', aggdeserialfn = ''-'', aggmtransfn = ''-'', aggminvtransfn = ''-'',
     aggmfinalfn = ''-'', aggfinalextra = False, aggmfinalextra = False, aggsortop = 3519,
     aggtranstype = 3500, aggtransspace = 0, aggmtranstype = 0, aggmtransspace = 0,
     agginitval = None, aggminitval = None\<rparr>"

definition max_rows :: "FormData_pg_aggregate list" where
  "max_rows = [agg_2115, agg_2116, agg_2117, agg_2118, agg_2119, agg_2120, agg_2121, agg_2122,
     agg_2123, agg_2124, agg_2125, agg_2126, agg_2127, agg_2128, agg_2129, agg_2130, agg_2050,
     agg_2244, agg_2797, agg_3526]"

subsubsection \<open>min\<close>

definition agg_2131 :: FormData_pg_aggregate where
  "agg_2131 = \<lparr>aggfnoid = 2131, aggkind = CHR ''n'', aggnumdirectargs = 0,
     aggtransfn = ''int8smaller'', aggfinalfn = ''-'', aggcombinefn = ''int8smaller'',
     aggserialfn = ''-'', aggdeserialfn = ''-'', aggmtransfn = ''-'', aggminvtransfn = ''-'',
     aggmfinalfn = ''-'', aggfinalextra = False, aggmfinalextra = False, aggsortop = 412,
     aggtranstype = 20, aggtransspace = 0, aggmtranstype = 0, aggmtransspace = 0,
     agginitval = None, aggminitval = None\<rparr>"

definition agg_2132 :: FormData_pg_aggregate where
  "agg_2132 = \<lparr>aggfnoid = 2132, aggkind = CHR ''n'', aggnumdirectargs = 0,
     aggtransfn = ''int4smaller'', aggfinalfn = ''-'', aggcombinefn = ''int4smaller'',
     aggserialfn = ''-'', aggdeserialfn = ''-'', aggmtransfn = ''-'', aggminvtransfn = ''-'',
     aggmfinalfn = ''-'', aggfinalextra = False, aggmfinalextra = False, aggsortop = 97,
     aggtranstype = 23, aggtransspace = 0, aggmtranstype = 0, aggmtransspace = 0,
     agginitval = None, aggminitval = None\<rparr>"

definition agg_2133 :: FormData_pg_aggregate where
  "agg_2133 = \<lparr>aggfnoid = 2133, aggkind = CHR ''n'', aggnumdirectargs = 0,
     aggtransfn = ''int2smaller'', aggfinalfn = ''-'', aggcombinefn = ''int2smaller'',
     aggserialfn = ''-'', aggdeserialfn = ''-'', aggmtransfn = ''-'', aggminvtransfn = ''-'',
     aggmfinalfn = ''-'', aggfinalextra = False, aggmfinalextra = False, aggsortop = 95,
     aggtranstype = 21, aggtransspace = 0, aggmtranstype = 0, aggmtransspace = 0,
     agginitval = None, aggminitval = None\<rparr>"

definition agg_2134 :: FormData_pg_aggregate where
  "agg_2134 = \<lparr>aggfnoid = 2134, aggkind = CHR ''n'', aggnumdirectargs = 0,
     aggtransfn = ''oidsmaller'', aggfinalfn = ''-'', aggcombinefn = ''oidsmaller'',
     aggserialfn = ''-'', aggdeserialfn = ''-'', aggmtransfn = ''-'', aggminvtransfn = ''-'',
     aggmfinalfn = ''-'', aggfinalextra = False, aggmfinalextra = False, aggsortop = 609,
     aggtranstype = 26, aggtransspace = 0, aggmtranstype = 0, aggmtransspace = 0,
     agginitval = None, aggminitval = None\<rparr>"

definition agg_2135 :: FormData_pg_aggregate where
  "agg_2135 = \<lparr>aggfnoid = 2135, aggkind = CHR ''n'', aggnumdirectargs = 0,
     aggtransfn = ''float4smaller'', aggfinalfn = ''-'', aggcombinefn = ''float4smaller'',
     aggserialfn = ''-'', aggdeserialfn = ''-'', aggmtransfn = ''-'', aggminvtransfn = ''-'',
     aggmfinalfn = ''-'', aggfinalextra = False, aggmfinalextra = False, aggsortop = 622,
     aggtranstype = 700, aggtransspace = 0, aggmtranstype = 0, aggmtransspace = 0,
     agginitval = None, aggminitval = None\<rparr>"

definition agg_2136 :: FormData_pg_aggregate where
  "agg_2136 = \<lparr>aggfnoid = 2136, aggkind = CHR ''n'', aggnumdirectargs = 0,
     aggtransfn = ''float8smaller'', aggfinalfn = ''-'', aggcombinefn = ''float8smaller'',
     aggserialfn = ''-'', aggdeserialfn = ''-'', aggmtransfn = ''-'', aggminvtransfn = ''-'',
     aggmfinalfn = ''-'', aggfinalextra = False, aggmfinalextra = False, aggsortop = 672,
     aggtranstype = 701, aggtransspace = 0, aggmtranstype = 0, aggmtransspace = 0,
     agginitval = None, aggminitval = None\<rparr>"

definition agg_2137 :: FormData_pg_aggregate where
  "agg_2137 = \<lparr>aggfnoid = 2137, aggkind = CHR ''n'', aggnumdirectargs = 0,
     aggtransfn = ''int4smaller'', aggfinalfn = ''-'', aggcombinefn = ''int4smaller'',
     aggserialfn = ''-'', aggdeserialfn = ''-'', aggmtransfn = ''-'', aggminvtransfn = ''-'',
     aggmfinalfn = ''-'', aggfinalextra = False, aggmfinalextra = False, aggsortop = 562,
     aggtranstype = 702, aggtransspace = 0, aggmtranstype = 0, aggmtransspace = 0,
     agginitval = None, aggminitval = None\<rparr>"

definition agg_2138 :: FormData_pg_aggregate where
  "agg_2138 = \<lparr>aggfnoid = 2138, aggkind = CHR ''n'', aggnumdirectargs = 0,
     aggtransfn = ''date_smaller'', aggfinalfn = ''-'', aggcombinefn = ''date_smaller'',
     aggserialfn = ''-'', aggdeserialfn = ''-'', aggmtransfn = ''-'', aggminvtransfn = ''-'',
     aggmfinalfn = ''-'', aggfinalextra = False, aggmfinalextra = False, aggsortop = 1095,
     aggtranstype = 1082, aggtransspace = 0, aggmtranstype = 0, aggmtransspace = 0,
     agginitval = None, aggminitval = None\<rparr>"

definition agg_2139 :: FormData_pg_aggregate where
  "agg_2139 = \<lparr>aggfnoid = 2139, aggkind = CHR ''n'', aggnumdirectargs = 0,
     aggtransfn = ''time_smaller'', aggfinalfn = ''-'', aggcombinefn = ''time_smaller'',
     aggserialfn = ''-'', aggdeserialfn = ''-'', aggmtransfn = ''-'', aggminvtransfn = ''-'',
     aggmfinalfn = ''-'', aggfinalextra = False, aggmfinalextra = False, aggsortop = 1110,
     aggtranstype = 1083, aggtransspace = 0, aggmtranstype = 0, aggmtransspace = 0,
     agginitval = None, aggminitval = None\<rparr>"

definition agg_2140 :: FormData_pg_aggregate where
  "agg_2140 = \<lparr>aggfnoid = 2140, aggkind = CHR ''n'', aggnumdirectargs = 0,
     aggtransfn = ''timetz_smaller'', aggfinalfn = ''-'', aggcombinefn = ''timetz_smaller'',
     aggserialfn = ''-'', aggdeserialfn = ''-'', aggmtransfn = ''-'', aggminvtransfn = ''-'',
     aggmfinalfn = ''-'', aggfinalextra = False, aggmfinalextra = False, aggsortop = 1552,
     aggtranstype = 1266, aggtransspace = 0, aggmtranstype = 0, aggmtransspace = 0,
     agginitval = None, aggminitval = None\<rparr>"

definition agg_2141 :: FormData_pg_aggregate where
  "agg_2141 = \<lparr>aggfnoid = 2141, aggkind = CHR ''n'', aggnumdirectargs = 0,
     aggtransfn = ''cashsmaller'', aggfinalfn = ''-'', aggcombinefn = ''cashsmaller'',
     aggserialfn = ''-'', aggdeserialfn = ''-'', aggmtransfn = ''-'', aggminvtransfn = ''-'',
     aggmfinalfn = ''-'', aggfinalextra = False, aggmfinalextra = False, aggsortop = 902,
     aggtranstype = 790, aggtransspace = 0, aggmtranstype = 0, aggmtransspace = 0,
     agginitval = None, aggminitval = None\<rparr>"

definition agg_2142 :: FormData_pg_aggregate where
  "agg_2142 = \<lparr>aggfnoid = 2142, aggkind = CHR ''n'', aggnumdirectargs = 0,
     aggtransfn = ''timestamp_smaller'', aggfinalfn = ''-'',
     aggcombinefn = ''timestamp_smaller'', aggserialfn = ''-'', aggdeserialfn = ''-'',
     aggmtransfn = ''-'', aggminvtransfn = ''-'', aggmfinalfn = ''-'', aggfinalextra = False,
     aggmfinalextra = False, aggsortop = 2062, aggtranstype = 1114, aggtransspace = 0,
     aggmtranstype = 0, aggmtransspace = 0, agginitval = None, aggminitval = None\<rparr>"

definition agg_2143 :: FormData_pg_aggregate where
  "agg_2143 = \<lparr>aggfnoid = 2143, aggkind = CHR ''n'', aggnumdirectargs = 0,
     aggtransfn = ''timestamptz_smaller'', aggfinalfn = ''-'',
     aggcombinefn = ''timestamptz_smaller'', aggserialfn = ''-'', aggdeserialfn = ''-'',
     aggmtransfn = ''-'', aggminvtransfn = ''-'', aggmfinalfn = ''-'', aggfinalextra = False,
     aggmfinalextra = False, aggsortop = 1322, aggtranstype = 1184, aggtransspace = 0,
     aggmtranstype = 0, aggmtransspace = 0, agginitval = None, aggminitval = None\<rparr>"

definition agg_2144 :: FormData_pg_aggregate where
  "agg_2144 = \<lparr>aggfnoid = 2144, aggkind = CHR ''n'', aggnumdirectargs = 0,
     aggtransfn = ''interval_smaller'', aggfinalfn = ''-'',
     aggcombinefn = ''interval_smaller'', aggserialfn = ''-'', aggdeserialfn = ''-'',
     aggmtransfn = ''-'', aggminvtransfn = ''-'', aggmfinalfn = ''-'', aggfinalextra = False,
     aggmfinalextra = False, aggsortop = 1332, aggtranstype = 1186, aggtransspace = 0,
     aggmtranstype = 0, aggmtransspace = 0, agginitval = None, aggminitval = None\<rparr>"

definition agg_2145 :: FormData_pg_aggregate where
  "agg_2145 = \<lparr>aggfnoid = 2145, aggkind = CHR ''n'', aggnumdirectargs = 0,
     aggtransfn = ''text_smaller'', aggfinalfn = ''-'', aggcombinefn = ''text_smaller'',
     aggserialfn = ''-'', aggdeserialfn = ''-'', aggmtransfn = ''-'', aggminvtransfn = ''-'',
     aggmfinalfn = ''-'', aggfinalextra = False, aggmfinalextra = False, aggsortop = 664,
     aggtranstype = 25, aggtransspace = 0, aggmtranstype = 0, aggmtransspace = 0,
     agginitval = None, aggminitval = None\<rparr>"

definition agg_2146 :: FormData_pg_aggregate where
  "agg_2146 = \<lparr>aggfnoid = 2146, aggkind = CHR ''n'', aggnumdirectargs = 0,
     aggtransfn = ''numeric_smaller'', aggfinalfn = ''-'', aggcombinefn = ''numeric_smaller'',
     aggserialfn = ''-'', aggdeserialfn = ''-'', aggmtransfn = ''-'', aggminvtransfn = ''-'',
     aggmfinalfn = ''-'', aggfinalextra = False, aggmfinalextra = False, aggsortop = 1754,
     aggtranstype = 1700, aggtransspace = 0, aggmtranstype = 0, aggmtransspace = 0,
     agginitval = None, aggminitval = None\<rparr>"

definition agg_2051 :: FormData_pg_aggregate where
  "agg_2051 = \<lparr>aggfnoid = 2051, aggkind = CHR ''n'', aggnumdirectargs = 0,
     aggtransfn = ''array_smaller'', aggfinalfn = ''-'', aggcombinefn = ''array_smaller'',
     aggserialfn = ''-'', aggdeserialfn = ''-'', aggmtransfn = ''-'', aggminvtransfn = ''-'',
     aggmfinalfn = ''-'', aggfinalextra = False, aggmfinalextra = False, aggsortop = 1072,
     aggtranstype = 2277, aggtransspace = 0, aggmtranstype = 0, aggmtransspace = 0,
     agginitval = None, aggminitval = None\<rparr>"

definition agg_2245 :: FormData_pg_aggregate where
  "agg_2245 = \<lparr>aggfnoid = 2245, aggkind = CHR ''n'', aggnumdirectargs = 0,
     aggtransfn = ''bpchar_smaller'', aggfinalfn = ''-'', aggcombinefn = ''bpchar_smaller'',
     aggserialfn = ''-'', aggdeserialfn = ''-'', aggmtransfn = ''-'', aggminvtransfn = ''-'',
     aggmfinalfn = ''-'', aggfinalextra = False, aggmfinalextra = False, aggsortop = 1058,
     aggtranstype = 1042, aggtransspace = 0, aggmtranstype = 0, aggmtransspace = 0,
     agginitval = None, aggminitval = None\<rparr>"

definition agg_2798 :: FormData_pg_aggregate where
  "agg_2798 = \<lparr>aggfnoid = 2798, aggkind = CHR ''n'', aggnumdirectargs = 0,
     aggtransfn = ''tidsmaller'', aggfinalfn = ''-'', aggcombinefn = ''tidsmaller'',
     aggserialfn = ''-'', aggdeserialfn = ''-'', aggmtransfn = ''-'', aggminvtransfn = ''-'',
     aggmfinalfn = ''-'', aggfinalextra = False, aggmfinalextra = False, aggsortop = 2799,
     aggtranstype = 27, aggtransspace = 0, aggmtranstype = 0, aggmtransspace = 0,
     agginitval = None, aggminitval = None\<rparr>"

definition agg_3527 :: FormData_pg_aggregate where
  "agg_3527 = \<lparr>aggfnoid = 3527, aggkind = CHR ''n'', aggnumdirectargs = 0,
     aggtransfn = ''enum_smaller'', aggfinalfn = ''-'', aggcombinefn = ''enum_smaller'',
     aggserialfn = ''-'', aggdeserialfn = ''-'', aggmtransfn = ''-'', aggminvtransfn = ''-'',
     aggmfinalfn = ''-'', aggfinalextra = False, aggmfinalextra = False, aggsortop = 3518,
     aggtranstype = 3500, aggtransspace = 0, aggmtranstype = 0, aggmtransspace = 0,
     agginitval = None, aggminitval = None\<rparr>"

definition min_rows :: "FormData_pg_aggregate list" where
  "min_rows = [agg_2131, agg_2132, agg_2133, agg_2134, agg_2135, agg_2136, agg_2137, agg_2138,
     agg_2139, agg_2140, agg_2141, agg_2142, agg_2143, agg_2144, agg_2145, agg_2146, agg_2051,
     agg_2245, agg_2798, agg_3527]"

subsubsection \<open>count\<close>

definition agg_2147 :: FormData_pg_aggregate where
  "agg_2147 = \<lparr>aggfnoid = 2147, aggkind = CHR ''n'', aggnumdirectargs = 0,
     aggtransfn = ''int8inc_any'', aggfinalfn = ''-'', aggcombinefn = ''int8pl'',
     aggserialfn = ''-'', aggdeserialfn = ''-'', aggmtransfn = ''int8inc_any'',
     aggminvtransfn = ''int8dec_any'', aggmfinalfn = ''-'', aggfinalextra = False,
     aggmfinalextra = False, aggsortop = 0, aggtranstype = 20, aggtransspace = 0,
     aggmtranstype = 20, aggmtransspace = 0, agginitval = Some ''0'',
     aggminitval = Some ''0''\<rparr>"

definition agg_2803 :: FormData_pg_aggregate where
  "agg_2803 = \<lparr>aggfnoid = 2803, aggkind = CHR ''n'', aggnumdirectargs = 0,
     aggtransfn = ''int8inc'', aggfinalfn = ''-'', aggcombinefn = ''int8pl'',
     aggserialfn = ''-'', aggdeserialfn = ''-'', aggmtransfn = ''int8inc'',
     aggminvtransfn = ''int8dec'', aggmfinalfn = ''-'', aggfinalextra = False,
     aggmfinalextra = False, aggsortop = 0, aggtranstype = 20, aggtransspace = 0,
     aggmtranstype = 20, aggmtransspace = 0, agginitval = Some ''0'',
     aggminitval = Some ''0''\<rparr>"

definition count_rows :: "FormData_pg_aggregate list" where
  "count_rows = [agg_2147, agg_2803]"

subsubsection \<open>var_pop\<close>

definition agg_2718 :: FormData_pg_aggregate where
  "agg_2718 = \<lparr>aggfnoid = 2718, aggkind = CHR ''n'', aggnumdirectargs = 0,
     aggtransfn = ''int8_accum'', aggfinalfn = ''numeric_var_pop'',
     aggcombinefn = ''numeric_combine'', aggserialfn = ''numeric_serialize'',
     aggdeserialfn = ''numeric_deserialize'', aggmtransfn = ''int8_accum'',
     aggminvtransfn = ''int8_accum_inv'', aggmfinalfn = ''numeric_var_pop'',
     aggfinalextra = False, aggmfinalextra = False, aggsortop = 0, aggtranstype = 2281,
     aggtransspace = 128, aggmtranstype = 2281, aggmtransspace = 128, agginitval = None,
     aggminitval = None\<rparr>"

definition agg_2719 :: FormData_pg_aggregate where
  "agg_2719 = \<lparr>aggfnoid = 2719, aggkind = CHR ''n'', aggnumdirectargs = 0,
     aggtransfn = ''int4_accum'', aggfinalfn = ''numeric_poly_var_pop'',
     aggcombinefn = ''numeric_poly_combine'', aggserialfn = ''numeric_poly_serialize'',
     aggdeserialfn = ''numeric_poly_deserialize'', aggmtransfn = ''int4_accum'',
     aggminvtransfn = ''int4_accum_inv'', aggmfinalfn = ''numeric_poly_var_pop'',
     aggfinalextra = False, aggmfinalextra = False, aggsortop = 0, aggtranstype = 2281,
     aggtransspace = 48, aggmtranstype = 2281, aggmtransspace = 48, agginitval = None,
     aggminitval = None\<rparr>"

definition agg_2720 :: FormData_pg_aggregate where
  "agg_2720 = \<lparr>aggfnoid = 2720, aggkind = CHR ''n'', aggnumdirectargs = 0,
     aggtransfn = ''int2_accum'', aggfinalfn = ''numeric_poly_var_pop'',
     aggcombinefn = ''numeric_poly_combine'', aggserialfn = ''numeric_poly_serialize'',
     aggdeserialfn = ''numeric_poly_deserialize'', aggmtransfn = ''int2_accum'',
     aggminvtransfn = ''int2_accum_inv'', aggmfinalfn = ''numeric_poly_var_pop'',
     aggfinalextra = False, aggmfinalextra = False, aggsortop = 0, aggtranstype = 2281,
     aggtransspace = 48, aggmtranstype = 2281, aggmtransspace = 48, agginitval = None,
     aggminitval = None\<rparr>"

definition agg_2721 :: FormData_pg_aggregate where
  "agg_2721 = \<lparr>aggfnoid = 2721, aggkind = CHR ''n'', aggnumdirectargs = 0,
     aggtransfn = ''float4_accum'', aggfinalfn = ''float8_var_pop'',
     aggcombinefn = ''float8_combine'', aggserialfn = ''-'', aggdeserialfn = ''-'',
     aggmtransfn = ''-'', aggminvtransfn = ''-'', aggmfinalfn = ''-'', aggfinalextra = False,
     aggmfinalextra = False, aggsortop = 0, aggtranstype = 1022, aggtransspace = 0,
     aggmtranstype = 0, aggmtransspace = 0, agginitval = Some ''{0,0,0}'',
     aggminitval = None\<rparr>"

definition agg_2722 :: FormData_pg_aggregate where
  "agg_2722 = \<lparr>aggfnoid = 2722, aggkind = CHR ''n'', aggnumdirectargs = 0,
     aggtransfn = ''float8_accum'', aggfinalfn = ''float8_var_pop'',
     aggcombinefn = ''float8_combine'', aggserialfn = ''-'', aggdeserialfn = ''-'',
     aggmtransfn = ''-'', aggminvtransfn = ''-'', aggmfinalfn = ''-'', aggfinalextra = False,
     aggmfinalextra = False, aggsortop = 0, aggtranstype = 1022, aggtransspace = 0,
     aggmtranstype = 0, aggmtransspace = 0, agginitval = Some ''{0,0,0}'',
     aggminitval = None\<rparr>"

definition agg_2723 :: FormData_pg_aggregate where
  "agg_2723 = \<lparr>aggfnoid = 2723, aggkind = CHR ''n'', aggnumdirectargs = 0,
     aggtransfn = ''numeric_accum'', aggfinalfn = ''numeric_var_pop'',
     aggcombinefn = ''numeric_combine'', aggserialfn = ''numeric_serialize'',
     aggdeserialfn = ''numeric_deserialize'', aggmtransfn = ''numeric_accum'',
     aggminvtransfn = ''numeric_accum_inv'', aggmfinalfn = ''numeric_var_pop'',
     aggfinalextra = False, aggmfinalextra = False, aggsortop = 0, aggtranstype = 2281,
     aggtransspace = 128, aggmtranstype = 2281, aggmtransspace = 128, agginitval = None,
     aggminitval = None\<rparr>"

definition var_pop_rows :: "FormData_pg_aggregate list" where
  "var_pop_rows = [agg_2718, agg_2719, agg_2720, agg_2721, agg_2722, agg_2723]"

subsubsection \<open>var_samp\<close>

definition agg_2641 :: FormData_pg_aggregate where
  "agg_2641 = \<lparr>aggfnoid = 2641, aggkind = CHR ''n'', aggnumdirectargs = 0,
     aggtransfn = ''int8_accum'', aggfinalfn = ''numeric_var_samp'',
     aggcombinefn = ''numeric_combine'', aggserialfn = ''numeric_serialize'',
     aggdeserialfn = ''numeric_deserialize'', aggmtransfn = ''int8_accum'',
     aggminvtransfn = ''int8_accum_inv'', aggmfinalfn = ''numeric_var_samp'',
     aggfinalextra = False, aggmfinalextra = False, aggsortop = 0, aggtranstype = 2281,
     aggtransspace = 128, aggmtranstype = 2281, aggmtransspace = 128, agginitval = None,
     aggminitval = None\<rparr>"

definition agg_2642 :: FormData_pg_aggregate where
  "agg_2642 = \<lparr>aggfnoid = 2642, aggkind = CHR ''n'', aggnumdirectargs = 0,
     aggtransfn = ''int4_accum'', aggfinalfn = ''numeric_poly_var_samp'',
     aggcombinefn = ''numeric_poly_combine'', aggserialfn = ''numeric_poly_serialize'',
     aggdeserialfn = ''numeric_poly_deserialize'', aggmtransfn = ''int4_accum'',
     aggminvtransfn = ''int4_accum_inv'', aggmfinalfn = ''numeric_poly_var_samp'',
     aggfinalextra = False, aggmfinalextra = False, aggsortop = 0, aggtranstype = 2281,
     aggtransspace = 48, aggmtranstype = 2281, aggmtransspace = 48, agginitval = None,
     aggminitval = None\<rparr>"

definition agg_2643 :: FormData_pg_aggregate where
  "agg_2643 = \<lparr>aggfnoid = 2643, aggkind = CHR ''n'', aggnumdirectargs = 0,
     aggtransfn = ''int2_accum'', aggfinalfn = ''numeric_poly_var_samp'',
     aggcombinefn = ''numeric_poly_combine'', aggserialfn = ''numeric_poly_serialize'',
     aggdeserialfn = ''numeric_poly_deserialize'', aggmtransfn = ''int2_accum'',
     aggminvtransfn = ''int2_accum_inv'', aggmfinalfn = ''numeric_poly_var_samp'',
     aggfinalextra = False, aggmfinalextra = False, aggsortop = 0, aggtranstype = 2281,
     aggtransspace = 48, aggmtranstype = 2281, aggmtransspace = 48, agginitval = None,
     aggminitval = None\<rparr>"

definition agg_2644 :: FormData_pg_aggregate where
  "agg_2644 = \<lparr>aggfnoid = 2644, aggkind = CHR ''n'', aggnumdirectargs = 0,
     aggtransfn = ''float4_accum'', aggfinalfn = ''float8_var_samp'',
     aggcombinefn = ''float8_combine'', aggserialfn = ''-'', aggdeserialfn = ''-'',
     aggmtransfn = ''-'', aggminvtransfn = ''-'', aggmfinalfn = ''-'', aggfinalextra = False,
     aggmfinalextra = False, aggsortop = 0, aggtranstype = 1022, aggtransspace = 0,
     aggmtranstype = 0, aggmtransspace = 0, agginitval = Some ''{0,0,0}'',
     aggminitval = None\<rparr>"

definition agg_2645 :: FormData_pg_aggregate where
  "agg_2645 = \<lparr>aggfnoid = 2645, aggkind = CHR ''n'', aggnumdirectargs = 0,
     aggtransfn = ''float8_accum'', aggfinalfn = ''float8_var_samp'',
     aggcombinefn = ''float8_combine'', aggserialfn = ''-'', aggdeserialfn = ''-'',
     aggmtransfn = ''-'', aggminvtransfn = ''-'', aggmfinalfn = ''-'', aggfinalextra = False,
     aggmfinalextra = False, aggsortop = 0, aggtranstype = 1022, aggtransspace = 0,
     aggmtranstype = 0, aggmtransspace = 0, agginitval = Some ''{0,0,0}'',
     aggminitval = None\<rparr>"

definition agg_2646 :: FormData_pg_aggregate where
  "agg_2646 = \<lparr>aggfnoid = 2646, aggkind = CHR ''n'', aggnumdirectargs = 0,
     aggtransfn = ''numeric_accum'', aggfinalfn = ''numeric_var_samp'',
     aggcombinefn = ''numeric_combine'', aggserialfn = ''numeric_serialize'',
     aggdeserialfn = ''numeric_deserialize'', aggmtransfn = ''numeric_accum'',
     aggminvtransfn = ''numeric_accum_inv'', aggmfinalfn = ''numeric_var_samp'',
     aggfinalextra = False, aggmfinalextra = False, aggsortop = 0, aggtranstype = 2281,
     aggtransspace = 128, aggmtranstype = 2281, aggmtransspace = 128, agginitval = None,
     aggminitval = None\<rparr>"

definition var_samp_rows :: "FormData_pg_aggregate list" where
  "var_samp_rows = [agg_2641, agg_2642, agg_2643, agg_2644, agg_2645, agg_2646]"

subsubsection \<open>variance: historical Postgres syntax for var_samp\<close>

definition agg_2148 :: FormData_pg_aggregate where
  "agg_2148 = \<lparr>aggfnoid = 2148, aggkind = CHR ''n'', aggnumdirectargs = 0,
     aggtransfn = ''int8_accum'', aggfinalfn = ''numeric_var_samp'',
     aggcombinefn = ''numeric_combine'', aggserialfn = ''numeric_serialize'',
     aggdeserialfn = ''numeric_deserialize'', aggmtransfn = ''int8_accum'',
     aggminvtransfn = ''int8_accum_inv'', aggmfinalfn = ''numeric_var_samp'',
     aggfinalextra = False, aggmfinalextra = False, aggsortop = 0, aggtranstype = 2281,
     aggtransspace = 128, aggmtranstype = 2281, aggmtransspace = 128, agginitval = None,
     aggminitval = None\<rparr>"

definition agg_2149 :: FormData_pg_aggregate where
  "agg_2149 = \<lparr>aggfnoid = 2149, aggkind = CHR ''n'', aggnumdirectargs = 0,
     aggtransfn = ''int4_accum'', aggfinalfn = ''numeric_poly_var_samp'',
     aggcombinefn = ''numeric_poly_combine'', aggserialfn = ''numeric_poly_serialize'',
     aggdeserialfn = ''numeric_poly_deserialize'', aggmtransfn = ''int4_accum'',
     aggminvtransfn = ''int4_accum_inv'', aggmfinalfn = ''numeric_poly_var_samp'',
     aggfinalextra = False, aggmfinalextra = False, aggsortop = 0, aggtranstype = 2281,
     aggtransspace = 48, aggmtranstype = 2281, aggmtransspace = 48, agginitval = None,
     aggminitval = None\<rparr>"

definition agg_2150 :: FormData_pg_aggregate where
  "agg_2150 = \<lparr>aggfnoid = 2150, aggkind = CHR ''n'', aggnumdirectargs = 0,
     aggtransfn = ''int2_accum'', aggfinalfn = ''numeric_poly_var_samp'',
     aggcombinefn = ''numeric_poly_combine'', aggserialfn = ''numeric_poly_serialize'',
     aggdeserialfn = ''numeric_poly_deserialize'', aggmtransfn = ''int2_accum'',
     aggminvtransfn = ''int2_accum_inv'', aggmfinalfn = ''numeric_poly_var_samp'',
     aggfinalextra = False, aggmfinalextra = False, aggsortop = 0, aggtranstype = 2281,
     aggtransspace = 48, aggmtranstype = 2281, aggmtransspace = 48, agginitval = None,
     aggminitval = None\<rparr>"

definition agg_2151 :: FormData_pg_aggregate where
  "agg_2151 = \<lparr>aggfnoid = 2151, aggkind = CHR ''n'', aggnumdirectargs = 0,
     aggtransfn = ''float4_accum'', aggfinalfn = ''float8_var_samp'',
     aggcombinefn = ''float8_combine'', aggserialfn = ''-'', aggdeserialfn = ''-'',
     aggmtransfn = ''-'', aggminvtransfn = ''-'', aggmfinalfn = ''-'', aggfinalextra = False,
     aggmfinalextra = False, aggsortop = 0, aggtranstype = 1022, aggtransspace = 0,
     aggmtranstype = 0, aggmtransspace = 0, agginitval = Some ''{0,0,0}'',
     aggminitval = None\<rparr>"

definition agg_2152 :: FormData_pg_aggregate where
  "agg_2152 = \<lparr>aggfnoid = 2152, aggkind = CHR ''n'', aggnumdirectargs = 0,
     aggtransfn = ''float8_accum'', aggfinalfn = ''float8_var_samp'',
     aggcombinefn = ''float8_combine'', aggserialfn = ''-'', aggdeserialfn = ''-'',
     aggmtransfn = ''-'', aggminvtransfn = ''-'', aggmfinalfn = ''-'', aggfinalextra = False,
     aggmfinalextra = False, aggsortop = 0, aggtranstype = 1022, aggtransspace = 0,
     aggmtranstype = 0, aggmtransspace = 0, agginitval = Some ''{0,0,0}'',
     aggminitval = None\<rparr>"

definition agg_2153 :: FormData_pg_aggregate where
  "agg_2153 = \<lparr>aggfnoid = 2153, aggkind = CHR ''n'', aggnumdirectargs = 0,
     aggtransfn = ''numeric_accum'', aggfinalfn = ''numeric_var_samp'',
     aggcombinefn = ''numeric_combine'', aggserialfn = ''numeric_serialize'',
     aggdeserialfn = ''numeric_deserialize'', aggmtransfn = ''numeric_accum'',
     aggminvtransfn = ''numeric_accum_inv'', aggmfinalfn = ''numeric_var_samp'',
     aggfinalextra = False, aggmfinalextra = False, aggsortop = 0, aggtranstype = 2281,
     aggtransspace = 128, aggmtranstype = 2281, aggmtransspace = 128, agginitval = None,
     aggminitval = None\<rparr>"

definition variance_rows :: "FormData_pg_aggregate list" where
  "variance_rows = [agg_2148, agg_2149, agg_2150, agg_2151, agg_2152, agg_2153]"

subsubsection \<open>stddev_pop\<close>

definition agg_2724 :: FormData_pg_aggregate where
  "agg_2724 = \<lparr>aggfnoid = 2724, aggkind = CHR ''n'', aggnumdirectargs = 0,
     aggtransfn = ''int8_accum'', aggfinalfn = ''numeric_stddev_pop'',
     aggcombinefn = ''numeric_combine'', aggserialfn = ''numeric_serialize'',
     aggdeserialfn = ''numeric_deserialize'', aggmtransfn = ''int8_accum'',
     aggminvtransfn = ''int8_accum_inv'', aggmfinalfn = ''numeric_stddev_pop'',
     aggfinalextra = False, aggmfinalextra = False, aggsortop = 0, aggtranstype = 2281,
     aggtransspace = 128, aggmtranstype = 2281, aggmtransspace = 128, agginitval = None,
     aggminitval = None\<rparr>"

definition agg_2725 :: FormData_pg_aggregate where
  "agg_2725 = \<lparr>aggfnoid = 2725, aggkind = CHR ''n'', aggnumdirectargs = 0,
     aggtransfn = ''int4_accum'', aggfinalfn = ''numeric_poly_stddev_pop'',
     aggcombinefn = ''numeric_poly_combine'', aggserialfn = ''numeric_poly_serialize'',
     aggdeserialfn = ''numeric_poly_deserialize'', aggmtransfn = ''int4_accum'',
     aggminvtransfn = ''int4_accum_inv'', aggmfinalfn = ''numeric_poly_stddev_pop'',
     aggfinalextra = False, aggmfinalextra = False, aggsortop = 0, aggtranstype = 2281,
     aggtransspace = 48, aggmtranstype = 2281, aggmtransspace = 48, agginitval = None,
     aggminitval = None\<rparr>"

definition agg_2726 :: FormData_pg_aggregate where
  "agg_2726 = \<lparr>aggfnoid = 2726, aggkind = CHR ''n'', aggnumdirectargs = 0,
     aggtransfn = ''int2_accum'', aggfinalfn = ''numeric_poly_stddev_pop'',
     aggcombinefn = ''numeric_poly_combine'', aggserialfn = ''numeric_poly_serialize'',
     aggdeserialfn = ''numeric_poly_deserialize'', aggmtransfn = ''int2_accum'',
     aggminvtransfn = ''int2_accum_inv'', aggmfinalfn = ''numeric_poly_stddev_pop'',
     aggfinalextra = False, aggmfinalextra = False, aggsortop = 0, aggtranstype = 2281,
     aggtransspace = 48, aggmtranstype = 2281, aggmtransspace = 48, agginitval = None,
     aggminitval = None\<rparr>"

definition agg_2727 :: FormData_pg_aggregate where
  "agg_2727 = \<lparr>aggfnoid = 2727, aggkind = CHR ''n'', aggnumdirectargs = 0,
     aggtransfn = ''float4_accum'', aggfinalfn = ''float8_stddev_pop'',
     aggcombinefn = ''float8_combine'', aggserialfn = ''-'', aggdeserialfn = ''-'',
     aggmtransfn = ''-'', aggminvtransfn = ''-'', aggmfinalfn = ''-'', aggfinalextra = False,
     aggmfinalextra = False, aggsortop = 0, aggtranstype = 1022, aggtransspace = 0,
     aggmtranstype = 0, aggmtransspace = 0, agginitval = Some ''{0,0,0}'',
     aggminitval = None\<rparr>"

definition agg_2728 :: FormData_pg_aggregate where
  "agg_2728 = \<lparr>aggfnoid = 2728, aggkind = CHR ''n'', aggnumdirectargs = 0,
     aggtransfn = ''float8_accum'', aggfinalfn = ''float8_stddev_pop'',
     aggcombinefn = ''float8_combine'', aggserialfn = ''-'', aggdeserialfn = ''-'',
     aggmtransfn = ''-'', aggminvtransfn = ''-'', aggmfinalfn = ''-'', aggfinalextra = False,
     aggmfinalextra = False, aggsortop = 0, aggtranstype = 1022, aggtransspace = 0,
     aggmtranstype = 0, aggmtransspace = 0, agginitval = Some ''{0,0,0}'',
     aggminitval = None\<rparr>"

definition agg_2729 :: FormData_pg_aggregate where
  "agg_2729 = \<lparr>aggfnoid = 2729, aggkind = CHR ''n'', aggnumdirectargs = 0,
     aggtransfn = ''numeric_accum'', aggfinalfn = ''numeric_stddev_pop'',
     aggcombinefn = ''numeric_combine'', aggserialfn = ''numeric_serialize'',
     aggdeserialfn = ''numeric_deserialize'', aggmtransfn = ''numeric_accum'',
     aggminvtransfn = ''numeric_accum_inv'', aggmfinalfn = ''numeric_stddev_pop'',
     aggfinalextra = False, aggmfinalextra = False, aggsortop = 0, aggtranstype = 2281,
     aggtransspace = 128, aggmtranstype = 2281, aggmtransspace = 128, agginitval = None,
     aggminitval = None\<rparr>"

definition stddev_pop_rows :: "FormData_pg_aggregate list" where
  "stddev_pop_rows = [agg_2724, agg_2725, agg_2726, agg_2727, agg_2728, agg_2729]"

subsubsection \<open>stddev_samp\<close>

definition agg_2712 :: FormData_pg_aggregate where
  "agg_2712 = \<lparr>aggfnoid = 2712, aggkind = CHR ''n'', aggnumdirectargs = 0,
     aggtransfn = ''int8_accum'', aggfinalfn = ''numeric_stddev_samp'',
     aggcombinefn = ''numeric_combine'', aggserialfn = ''numeric_serialize'',
     aggdeserialfn = ''numeric_deserialize'', aggmtransfn = ''int8_accum'',
     aggminvtransfn = ''int8_accum_inv'', aggmfinalfn = ''numeric_stddev_samp'',
     aggfinalextra = False, aggmfinalextra = False, aggsortop = 0, aggtranstype = 2281,
     aggtransspace = 128, aggmtranstype = 2281, aggmtransspace = 128, agginitval = None,
     aggminitval = None\<rparr>"

definition agg_2713 :: FormData_pg_aggregate where
  "agg_2713 = \<lparr>aggfnoid = 2713, aggkind = CHR ''n'', aggnumdirectargs = 0,
     aggtransfn = ''int4_accum'', aggfinalfn = ''numeric_poly_stddev_samp'',
     aggcombinefn = ''numeric_poly_combine'', aggserialfn = ''numeric_poly_serialize'',
     aggdeserialfn = ''numeric_poly_deserialize'', aggmtransfn = ''int4_accum'',
     aggminvtransfn = ''int4_accum_inv'', aggmfinalfn = ''numeric_poly_stddev_samp'',
     aggfinalextra = False, aggmfinalextra = False, aggsortop = 0, aggtranstype = 2281,
     aggtransspace = 48, aggmtranstype = 2281, aggmtransspace = 48, agginitval = None,
     aggminitval = None\<rparr>"

definition agg_2714 :: FormData_pg_aggregate where
  "agg_2714 = \<lparr>aggfnoid = 2714, aggkind = CHR ''n'', aggnumdirectargs = 0,
     aggtransfn = ''int2_accum'', aggfinalfn = ''numeric_poly_stddev_samp'',
     aggcombinefn = ''numeric_poly_combine'', aggserialfn = ''numeric_poly_serialize'',
     aggdeserialfn = ''numeric_poly_deserialize'', aggmtransfn = ''int2_accum'',
     aggminvtransfn = ''int2_accum_inv'', aggmfinalfn = ''numeric_poly_stddev_samp'',
     aggfinalextra = False, aggmfinalextra = False, aggsortop = 0, aggtranstype = 2281,
     aggtransspace = 48, aggmtranstype = 2281, aggmtransspace = 48, agginitval = None,
     aggminitval = None\<rparr>"

definition agg_2715 :: FormData_pg_aggregate where
  "agg_2715 = \<lparr>aggfnoid = 2715, aggkind = CHR ''n'', aggnumdirectargs = 0,
     aggtransfn = ''float4_accum'', aggfinalfn = ''float8_stddev_samp'',
     aggcombinefn = ''float8_combine'', aggserialfn = ''-'', aggdeserialfn = ''-'',
     aggmtransfn = ''-'', aggminvtransfn = ''-'', aggmfinalfn = ''-'', aggfinalextra = False,
     aggmfinalextra = False, aggsortop = 0, aggtranstype = 1022, aggtransspace = 0,
     aggmtranstype = 0, aggmtransspace = 0, agginitval = Some ''{0,0,0}'',
     aggminitval = None\<rparr>"

definition agg_2716 :: FormData_pg_aggregate where
  "agg_2716 = \<lparr>aggfnoid = 2716, aggkind = CHR ''n'', aggnumdirectargs = 0,
     aggtransfn = ''float8_accum'', aggfinalfn = ''float8_stddev_samp'',
     aggcombinefn = ''float8_combine'', aggserialfn = ''-'', aggdeserialfn = ''-'',
     aggmtransfn = ''-'', aggminvtransfn = ''-'', aggmfinalfn = ''-'', aggfinalextra = False,
     aggmfinalextra = False, aggsortop = 0, aggtranstype = 1022, aggtransspace = 0,
     aggmtranstype = 0, aggmtransspace = 0, agginitval = Some ''{0,0,0}'',
     aggminitval = None\<rparr>"

definition agg_2717 :: FormData_pg_aggregate where
  "agg_2717 = \<lparr>aggfnoid = 2717, aggkind = CHR ''n'', aggnumdirectargs = 0,
     aggtransfn = ''numeric_accum'', aggfinalfn = ''numeric_stddev_samp'',
     aggcombinefn = ''numeric_combine'', aggserialfn = ''numeric_serialize'',
     aggdeserialfn = ''numeric_deserialize'', aggmtransfn = ''numeric_accum'',
     aggminvtransfn = ''numeric_accum_inv'', aggmfinalfn = ''numeric_stddev_samp'',
     aggfinalextra = False, aggmfinalextra = False, aggsortop = 0, aggtranstype = 2281,
     aggtransspace = 128, aggmtranstype = 2281, aggmtransspace = 128, agginitval = None,
     aggminitval = None\<rparr>"

definition stddev_samp_rows :: "FormData_pg_aggregate list" where
  "stddev_samp_rows = [agg_2712, agg_2713, agg_2714, agg_2715, agg_2716, agg_2717]"

subsubsection \<open>stddev: historical Postgres syntax for stddev_samp\<close>

definition agg_2154 :: FormData_pg_aggregate where
  "agg_2154 = \<lparr>aggfnoid = 2154, aggkind = CHR ''n'', aggnumdirectargs = 0,
     aggtransfn = ''int8_accum'', aggfinalfn = ''numeric_stddev_samp'',
     aggcombinefn = ''numeric_combine'', aggserialfn = ''numeric_serialize'',
     aggdeserialfn = ''numeric_deserialize'', aggmtransfn = ''int8_accum'',
     aggminvtransfn = ''int8_accum_inv'', aggmfinalfn = ''numeric_stddev_samp'',
     aggfinalextra = False, aggmfinalextra = False, aggsortop = 0, aggtranstype = 2281,
     aggtransspace = 128, aggmtranstype = 2281, aggmtransspace = 128, agginitval = None,
     aggminitval = None\<rparr>"

definition agg_2155 :: FormData_pg_aggregate where
  "agg_2155 = \<lparr>aggfnoid = 2155, aggkind = CHR ''n'', aggnumdirectargs = 0,
     aggtransfn = ''int4_accum'', aggfinalfn = ''numeric_poly_stddev_samp'',
     aggcombinefn = ''numeric_poly_combine'', aggserialfn = ''numeric_poly_serialize'',
     aggdeserialfn = ''numeric_poly_deserialize'', aggmtransfn = ''int4_accum'',
     aggminvtransfn = ''int4_accum_inv'', aggmfinalfn = ''numeric_poly_stddev_samp'',
     aggfinalextra = False, aggmfinalextra = False, aggsortop = 0, aggtranstype = 2281,
     aggtransspace = 48, aggmtranstype = 2281, aggmtransspace = 48, agginitval = None,
     aggminitval = None\<rparr>"

definition agg_2156 :: FormData_pg_aggregate where
  "agg_2156 = \<lparr>aggfnoid = 2156, aggkind = CHR ''n'', aggnumdirectargs = 0,
     aggtransfn = ''int2_accum'', aggfinalfn = ''numeric_poly_stddev_samp'',
     aggcombinefn = ''numeric_poly_combine'', aggserialfn = ''numeric_poly_serialize'',
     aggdeserialfn = ''numeric_poly_deserialize'', aggmtransfn = ''int2_accum'',
     aggminvtransfn = ''int2_accum_inv'', aggmfinalfn = ''numeric_poly_stddev_samp'',
     aggfinalextra = False, aggmfinalextra = False, aggsortop = 0, aggtranstype = 2281,
     aggtransspace = 48, aggmtranstype = 2281, aggmtransspace = 48, agginitval = None,
     aggminitval = None\<rparr>"

definition agg_2157 :: FormData_pg_aggregate where
  "agg_2157 = \<lparr>aggfnoid = 2157, aggkind = CHR ''n'', aggnumdirectargs = 0,
     aggtransfn = ''float4_accum'', aggfinalfn = ''float8_stddev_samp'',
     aggcombinefn = ''float8_combine'', aggserialfn = ''-'', aggdeserialfn = ''-'',
     aggmtransfn = ''-'', aggminvtransfn = ''-'', aggmfinalfn = ''-'', aggfinalextra = False,
     aggmfinalextra = False, aggsortop = 0, aggtranstype = 1022, aggtransspace = 0,
     aggmtranstype = 0, aggmtransspace = 0, agginitval = Some ''{0,0,0}'',
     aggminitval = None\<rparr>"

definition agg_2158 :: FormData_pg_aggregate where
  "agg_2158 = \<lparr>aggfnoid = 2158, aggkind = CHR ''n'', aggnumdirectargs = 0,
     aggtransfn = ''float8_accum'', aggfinalfn = ''float8_stddev_samp'',
     aggcombinefn = ''float8_combine'', aggserialfn = ''-'', aggdeserialfn = ''-'',
     aggmtransfn = ''-'', aggminvtransfn = ''-'', aggmfinalfn = ''-'', aggfinalextra = False,
     aggmfinalextra = False, aggsortop = 0, aggtranstype = 1022, aggtransspace = 0,
     aggmtranstype = 0, aggmtransspace = 0, agginitval = Some ''{0,0,0}'',
     aggminitval = None\<rparr>"

definition agg_2159 :: FormData_pg_aggregate where
  "agg_2159 = \<lparr>aggfnoid = 2159, aggkind = CHR ''n'', aggnumdirectargs = 0,
     aggtransfn = ''numeric_accum'', aggfinalfn = ''numeric_stddev_samp'',
     aggcombinefn = ''numeric_combine'', aggserialfn = ''numeric_serialize'',
     aggdeserialfn = ''numeric_deserialize'', aggmtransfn = ''numeric_accum'',
     aggminvtransfn = ''numeric_accum_inv'', aggmfinalfn = ''numeric_stddev_samp'',
     aggfinalextra = False, aggmfinalextra = False, aggsortop = 0, aggtranstype = 2281,
     aggtransspace = 128, aggmtranstype = 2281, aggmtransspace = 128, agginitval = None,
     aggminitval = None\<rparr>"

definition stddev_rows :: "FormData_pg_aggregate list" where
  "stddev_rows = [agg_2154, agg_2155, agg_2156, agg_2157, agg_2158, agg_2159]"

subsubsection \<open>SQL2003 binary regression aggregates\<close>

definition agg_2818 :: FormData_pg_aggregate where
  "agg_2818 = \<lparr>aggfnoid = 2818, aggkind = CHR ''n'', aggnumdirectargs = 0,
     aggtransfn = ''int8inc_float8_float8'', aggfinalfn = ''-'', aggcombinefn = ''int8pl'',
     aggserialfn = ''-'', aggdeserialfn = ''-'', aggmtransfn = ''-'', aggminvtransfn = ''-'',
     aggmfinalfn = ''-'', aggfinalextra = False, aggmfinalextra = False, aggsortop = 0,
     aggtranstype = 20, aggtransspace = 0, aggmtranstype = 0, aggmtransspace = 0,
     agginitval = Some ''0'', aggminitval = None\<rparr>"

definition agg_2819 :: FormData_pg_aggregate where
  "agg_2819 = \<lparr>aggfnoid = 2819, aggkind = CHR ''n'', aggnumdirectargs = 0,
     aggtransfn = ''float8_regr_accum'', aggfinalfn = ''float8_regr_sxx'',
     aggcombinefn = ''float8_regr_combine'', aggserialfn = ''-'', aggdeserialfn = ''-'',
     aggmtransfn = ''-'', aggminvtransfn = ''-'', aggmfinalfn = ''-'', aggfinalextra = False,
     aggmfinalextra = False, aggsortop = 0, aggtranstype = 1022, aggtransspace = 0,
     aggmtranstype = 0, aggmtransspace = 0, agginitval = Some ''{0,0,0,0,0,0}'',
     aggminitval = None\<rparr>"

definition agg_2820 :: FormData_pg_aggregate where
  "agg_2820 = \<lparr>aggfnoid = 2820, aggkind = CHR ''n'', aggnumdirectargs = 0,
     aggtransfn = ''float8_regr_accum'', aggfinalfn = ''float8_regr_syy'',
     aggcombinefn = ''float8_regr_combine'', aggserialfn = ''-'', aggdeserialfn = ''-'',
     aggmtransfn = ''-'', aggminvtransfn = ''-'', aggmfinalfn = ''-'', aggfinalextra = False,
     aggmfinalextra = False, aggsortop = 0, aggtranstype = 1022, aggtransspace = 0,
     aggmtranstype = 0, aggmtransspace = 0, agginitval = Some ''{0,0,0,0,0,0}'',
     aggminitval = None\<rparr>"

definition agg_2821 :: FormData_pg_aggregate where
  "agg_2821 = \<lparr>aggfnoid = 2821, aggkind = CHR ''n'', aggnumdirectargs = 0,
     aggtransfn = ''float8_regr_accum'', aggfinalfn = ''float8_regr_sxy'',
     aggcombinefn = ''float8_regr_combine'', aggserialfn = ''-'', aggdeserialfn = ''-'',
     aggmtransfn = ''-'', aggminvtransfn = ''-'', aggmfinalfn = ''-'', aggfinalextra = False,
     aggmfinalextra = False, aggsortop = 0, aggtranstype = 1022, aggtransspace = 0,
     aggmtranstype = 0, aggmtransspace = 0, agginitval = Some ''{0,0,0,0,0,0}'',
     aggminitval = None\<rparr>"

definition agg_2822 :: FormData_pg_aggregate where
  "agg_2822 = \<lparr>aggfnoid = 2822, aggkind = CHR ''n'', aggnumdirectargs = 0,
     aggtransfn = ''float8_regr_accum'', aggfinalfn = ''float8_regr_avgx'',
     aggcombinefn = ''float8_regr_combine'', aggserialfn = ''-'', aggdeserialfn = ''-'',
     aggmtransfn = ''-'', aggminvtransfn = ''-'', aggmfinalfn = ''-'', aggfinalextra = False,
     aggmfinalextra = False, aggsortop = 0, aggtranstype = 1022, aggtransspace = 0,
     aggmtranstype = 0, aggmtransspace = 0, agginitval = Some ''{0,0,0,0,0,0}'',
     aggminitval = None\<rparr>"

definition agg_2823 :: FormData_pg_aggregate where
  "agg_2823 = \<lparr>aggfnoid = 2823, aggkind = CHR ''n'', aggnumdirectargs = 0,
     aggtransfn = ''float8_regr_accum'', aggfinalfn = ''float8_regr_avgy'',
     aggcombinefn = ''float8_regr_combine'', aggserialfn = ''-'', aggdeserialfn = ''-'',
     aggmtransfn = ''-'', aggminvtransfn = ''-'', aggmfinalfn = ''-'', aggfinalextra = False,
     aggmfinalextra = False, aggsortop = 0, aggtranstype = 1022, aggtransspace = 0,
     aggmtranstype = 0, aggmtransspace = 0, agginitval = Some ''{0,0,0,0,0,0}'',
     aggminitval = None\<rparr>"

definition agg_2824 :: FormData_pg_aggregate where
  "agg_2824 = \<lparr>aggfnoid = 2824, aggkind = CHR ''n'', aggnumdirectargs = 0,
     aggtransfn = ''float8_regr_accum'', aggfinalfn = ''float8_regr_r2'',
     aggcombinefn = ''float8_regr_combine'', aggserialfn = ''-'', aggdeserialfn = ''-'',
     aggmtransfn = ''-'', aggminvtransfn = ''-'', aggmfinalfn = ''-'', aggfinalextra = False,
     aggmfinalextra = False, aggsortop = 0, aggtranstype = 1022, aggtransspace = 0,
     aggmtranstype = 0, aggmtransspace = 0, agginitval = Some ''{0,0,0,0,0,0}'',
     aggminitval = None\<rparr>"

definition agg_2825 :: FormData_pg_aggregate where
  "agg_2825 = \<lparr>aggfnoid = 2825, aggkind = CHR ''n'', aggnumdirectargs = 0,
     aggtransfn = ''float8_regr_accum'', aggfinalfn = ''float8_regr_slope'',
     aggcombinefn = ''float8_regr_combine'', aggserialfn = ''-'', aggdeserialfn = ''-'',
     aggmtransfn = ''-'', aggminvtransfn = ''-'', aggmfinalfn = ''-'', aggfinalextra = False,
     aggmfinalextra = False, aggsortop = 0, aggtranstype = 1022, aggtransspace = 0,
     aggmtranstype = 0, aggmtransspace = 0, agginitval = Some ''{0,0,0,0,0,0}'',
     aggminitval = None\<rparr>"

definition agg_2826 :: FormData_pg_aggregate where
  "agg_2826 = \<lparr>aggfnoid = 2826, aggkind = CHR ''n'', aggnumdirectargs = 0,
     aggtransfn = ''float8_regr_accum'', aggfinalfn = ''float8_regr_intercept'',
     aggcombinefn = ''float8_regr_combine'', aggserialfn = ''-'', aggdeserialfn = ''-'',
     aggmtransfn = ''-'', aggminvtransfn = ''-'', aggmfinalfn = ''-'', aggfinalextra = False,
     aggmfinalextra = False, aggsortop = 0, aggtranstype = 1022, aggtransspace = 0,
     aggmtranstype = 0, aggmtransspace = 0, agginitval = Some ''{0,0,0,0,0,0}'',
     aggminitval = None\<rparr>"

definition agg_2827 :: FormData_pg_aggregate where
  "agg_2827 = \<lparr>aggfnoid = 2827, aggkind = CHR ''n'', aggnumdirectargs = 0,
     aggtransfn = ''float8_regr_accum'', aggfinalfn = ''float8_covar_pop'',
     aggcombinefn = ''float8_regr_combine'', aggserialfn = ''-'', aggdeserialfn = ''-'',
     aggmtransfn = ''-'', aggminvtransfn = ''-'', aggmfinalfn = ''-'', aggfinalextra = False,
     aggmfinalextra = False, aggsortop = 0, aggtranstype = 1022, aggtransspace = 0,
     aggmtranstype = 0, aggmtransspace = 0, agginitval = Some ''{0,0,0,0,0,0}'',
     aggminitval = None\<rparr>"

definition agg_2828 :: FormData_pg_aggregate where
  "agg_2828 = \<lparr>aggfnoid = 2828, aggkind = CHR ''n'', aggnumdirectargs = 0,
     aggtransfn = ''float8_regr_accum'', aggfinalfn = ''float8_covar_samp'',
     aggcombinefn = ''float8_regr_combine'', aggserialfn = ''-'', aggdeserialfn = ''-'',
     aggmtransfn = ''-'', aggminvtransfn = ''-'', aggmfinalfn = ''-'', aggfinalextra = False,
     aggmfinalextra = False, aggsortop = 0, aggtranstype = 1022, aggtransspace = 0,
     aggmtranstype = 0, aggmtransspace = 0, agginitval = Some ''{0,0,0,0,0,0}'',
     aggminitval = None\<rparr>"

definition agg_2829 :: FormData_pg_aggregate where
  "agg_2829 = \<lparr>aggfnoid = 2829, aggkind = CHR ''n'', aggnumdirectargs = 0,
     aggtransfn = ''float8_regr_accum'', aggfinalfn = ''float8_corr'',
     aggcombinefn = ''float8_regr_combine'', aggserialfn = ''-'', aggdeserialfn = ''-'',
     aggmtransfn = ''-'', aggminvtransfn = ''-'', aggmfinalfn = ''-'', aggfinalextra = False,
     aggmfinalextra = False, aggsortop = 0, aggtranstype = 1022, aggtransspace = 0,
     aggmtranstype = 0, aggmtransspace = 0, agginitval = Some ''{0,0,0,0,0,0}'',
     aggminitval = None\<rparr>"

definition regr_rows :: "FormData_pg_aggregate list" where
  "regr_rows = [agg_2818, agg_2819, agg_2820, agg_2821, agg_2822, agg_2823, agg_2824, agg_2825,
     agg_2826, agg_2827, agg_2828, agg_2829]"

subsubsection \<open>boolean-and and boolean-or\<close>

definition agg_2517 :: FormData_pg_aggregate where
  "agg_2517 = \<lparr>aggfnoid = 2517, aggkind = CHR ''n'', aggnumdirectargs = 0,
     aggtransfn = ''booland_statefunc'', aggfinalfn = ''-'',
     aggcombinefn = ''booland_statefunc'', aggserialfn = ''-'', aggdeserialfn = ''-'',
     aggmtransfn = ''bool_accum'', aggminvtransfn = ''bool_accum_inv'',
     aggmfinalfn = ''bool_alltrue'', aggfinalextra = False, aggmfinalextra = False,
     aggsortop = 58, aggtranstype = 16, aggtransspace = 0, aggmtranstype = 2281,
     aggmtransspace = 16, agginitval = None, aggminitval = None\<rparr>"

definition agg_2518 :: FormData_pg_aggregate where
  "agg_2518 = \<lparr>aggfnoid = 2518, aggkind = CHR ''n'', aggnumdirectargs = 0,
     aggtransfn = ''boolor_statefunc'', aggfinalfn = ''-'',
     aggcombinefn = ''boolor_statefunc'', aggserialfn = ''-'', aggdeserialfn = ''-'',
     aggmtransfn = ''bool_accum'', aggminvtransfn = ''bool_accum_inv'',
     aggmfinalfn = ''bool_anytrue'', aggfinalextra = False, aggmfinalextra = False,
     aggsortop = 59, aggtranstype = 16, aggtransspace = 0, aggmtranstype = 2281,
     aggmtransspace = 16, agginitval = None, aggminitval = None\<rparr>"

definition agg_2519 :: FormData_pg_aggregate where
  "agg_2519 = \<lparr>aggfnoid = 2519, aggkind = CHR ''n'', aggnumdirectargs = 0,
     aggtransfn = ''booland_statefunc'', aggfinalfn = ''-'',
     aggcombinefn = ''booland_statefunc'', aggserialfn = ''-'', aggdeserialfn = ''-'',
     aggmtransfn = ''bool_accum'', aggminvtransfn = ''bool_accum_inv'',
     aggmfinalfn = ''bool_alltrue'', aggfinalextra = False, aggmfinalextra = False,
     aggsortop = 58, aggtranstype = 16, aggtransspace = 0, aggmtranstype = 2281,
     aggmtransspace = 16, agginitval = None, aggminitval = None\<rparr>"

definition bool_rows :: "FormData_pg_aggregate list" where
  "bool_rows = [agg_2517, agg_2518, agg_2519]"

subsubsection \<open>bitwise integer\<close>

definition agg_2236 :: FormData_pg_aggregate where
  "agg_2236 = \<lparr>aggfnoid = 2236, aggkind = CHR ''n'', aggnumdirectargs = 0,
     aggtransfn = ''int2and'', aggfinalfn = ''-'', aggcombinefn = ''int2and'',
     aggserialfn = ''-'', aggdeserialfn = ''-'', aggmtransfn = ''-'', aggminvtransfn = ''-'',
     aggmfinalfn = ''-'', aggfinalextra = False, aggmfinalextra = False, aggsortop = 0,
     aggtranstype = 21, aggtransspace = 0, aggmtranstype = 0, aggmtransspace = 0,
     agginitval = None, aggminitval = None\<rparr>"

definition agg_2237 :: FormData_pg_aggregate where
  "agg_2237 = \<lparr>aggfnoid = 2237, aggkind = CHR ''n'', aggnumdirectargs = 0,
     aggtransfn = ''int2or'', aggfinalfn = ''-'', aggcombinefn = ''int2or'',
     aggserialfn = ''-'', aggdeserialfn = ''-'', aggmtransfn = ''-'', aggminvtransfn = ''-'',
     aggmfinalfn = ''-'', aggfinalextra = False, aggmfinalextra = False, aggsortop = 0,
     aggtranstype = 21, aggtransspace = 0, aggmtranstype = 0, aggmtransspace = 0,
     agginitval = None, aggminitval = None\<rparr>"

definition agg_2238 :: FormData_pg_aggregate where
  "agg_2238 = \<lparr>aggfnoid = 2238, aggkind = CHR ''n'', aggnumdirectargs = 0,
     aggtransfn = ''int4and'', aggfinalfn = ''-'', aggcombinefn = ''int4and'',
     aggserialfn = ''-'', aggdeserialfn = ''-'', aggmtransfn = ''-'', aggminvtransfn = ''-'',
     aggmfinalfn = ''-'', aggfinalextra = False, aggmfinalextra = False, aggsortop = 0,
     aggtranstype = 23, aggtransspace = 0, aggmtranstype = 0, aggmtransspace = 0,
     agginitval = None, aggminitval = None\<rparr>"

definition agg_2239 :: FormData_pg_aggregate where
  "agg_2239 = \<lparr>aggfnoid = 2239, aggkind = CHR ''n'', aggnumdirectargs = 0,
     aggtransfn = ''int4or'', aggfinalfn = ''-'', aggcombinefn = ''int4or'',
     aggserialfn = ''-'', aggdeserialfn = ''-'', aggmtransfn = ''-'', aggminvtransfn = ''-'',
     aggmfinalfn = ''-'', aggfinalextra = False, aggmfinalextra = False, aggsortop = 0,
     aggtranstype = 23, aggtransspace = 0, aggmtranstype = 0, aggmtransspace = 0,
     agginitval = None, aggminitval = None\<rparr>"

definition agg_2240 :: FormData_pg_aggregate where
  "agg_2240 = \<lparr>aggfnoid = 2240, aggkind = CHR ''n'', aggnumdirectargs = 0,
     aggtransfn = ''int8and'', aggfinalfn = ''-'', aggcombinefn = ''int8and'',
     aggserialfn = ''-'', aggdeserialfn = ''-'', aggmtransfn = ''-'', aggminvtransfn = ''-'',
     aggmfinalfn = ''-'', aggfinalextra = False, aggmfinalextra = False, aggsortop = 0,
     aggtranstype = 20, aggtransspace = 0, aggmtranstype = 0, aggmtransspace = 0,
     agginitval = None, aggminitval = None\<rparr>"

definition agg_2241 :: FormData_pg_aggregate where
  "agg_2241 = \<lparr>aggfnoid = 2241, aggkind = CHR ''n'', aggnumdirectargs = 0,
     aggtransfn = ''int8or'', aggfinalfn = ''-'', aggcombinefn = ''int8or'',
     aggserialfn = ''-'', aggdeserialfn = ''-'', aggmtransfn = ''-'', aggminvtransfn = ''-'',
     aggmfinalfn = ''-'', aggfinalextra = False, aggmfinalextra = False, aggsortop = 0,
     aggtranstype = 20, aggtransspace = 0, aggmtranstype = 0, aggmtransspace = 0,
     agginitval = None, aggminitval = None\<rparr>"

definition agg_2242 :: FormData_pg_aggregate where
  "agg_2242 = \<lparr>aggfnoid = 2242, aggkind = CHR ''n'', aggnumdirectargs = 0,
     aggtransfn = ''bitand'', aggfinalfn = ''-'', aggcombinefn = ''bitand'',
     aggserialfn = ''-'', aggdeserialfn = ''-'', aggmtransfn = ''-'', aggminvtransfn = ''-'',
     aggmfinalfn = ''-'', aggfinalextra = False, aggmfinalextra = False, aggsortop = 0,
     aggtranstype = 1560, aggtransspace = 0, aggmtranstype = 0, aggmtransspace = 0,
     agginitval = None, aggminitval = None\<rparr>"

definition agg_2243 :: FormData_pg_aggregate where
  "agg_2243 = \<lparr>aggfnoid = 2243, aggkind = CHR ''n'', aggnumdirectargs = 0,
     aggtransfn = ''bitor'', aggfinalfn = ''-'', aggcombinefn = ''bitor'', aggserialfn = ''-'',
     aggdeserialfn = ''-'', aggmtransfn = ''-'', aggminvtransfn = ''-'', aggmfinalfn = ''-'',
     aggfinalextra = False, aggmfinalextra = False, aggsortop = 0, aggtranstype = 1560,
     aggtransspace = 0, aggmtranstype = 0, aggmtransspace = 0, agginitval = None,
     aggminitval = None\<rparr>"

definition bitwise_rows :: "FormData_pg_aggregate list" where
  "bitwise_rows = [agg_2236, agg_2237, agg_2238, agg_2239, agg_2240, agg_2241, agg_2242,
     agg_2243]"

subsubsection \<open>MPP Aggregate -- array_sum -- special for prospective customer\<close>

definition agg_6013 :: FormData_pg_aggregate where
  "agg_6013 = \<lparr>aggfnoid = 6013, aggkind = CHR ''n'', aggnumdirectargs = 0,
     aggtransfn = ''array_add'', aggfinalfn = ''-'', aggcombinefn = ''array_add'',
     aggserialfn = ''-'', aggdeserialfn = ''-'', aggmtransfn = ''-'', aggminvtransfn = ''-'',
     aggmfinalfn = ''-'', aggfinalextra = False, aggmfinalextra = False, aggsortop = 0,
     aggtranstype = 1007, aggtransspace = 0, aggmtranstype = 0, aggmtransspace = 0,
     agginitval = Some ''{}'', aggminitval = None\<rparr>"

definition array_sum_rows :: "FormData_pg_aggregate list" where
  "array_sum_rows = [agg_6013]"

subsubsection \<open>sum(array[])\<close>

definition agg_6216 :: FormData_pg_aggregate where
  "agg_6216 = \<lparr>aggfnoid = 6216, aggkind = CHR ''n'', aggnumdirectargs = 0,
     aggtransfn = ''int2_matrix_accum'', aggfinalfn = ''-'',
     aggcombinefn = ''int8_matrix_accum'', aggserialfn = ''-'', aggdeserialfn = ''-'',
     aggmtransfn = ''-'', aggminvtransfn = ''-'', aggmfinalfn = ''-'', aggfinalextra = False,
     aggmfinalextra = False, aggsortop = 0, aggtranstype = 1016, aggtransspace = 0,
     aggmtranstype = 0, aggmtransspace = 0, agginitval = None, aggminitval = None\<rparr>"

definition agg_6217 :: FormData_pg_aggregate where
  "agg_6217 = \<lparr>aggfnoid = 6217, aggkind = CHR ''n'', aggnumdirectargs = 0,
     aggtransfn = ''int4_matrix_accum'', aggfinalfn = ''-'',
     aggcombinefn = ''int8_matrix_accum'', aggserialfn = ''-'', aggdeserialfn = ''-'',
     aggmtransfn = ''-'', aggminvtransfn = ''-'', aggmfinalfn = ''-'', aggfinalextra = False,
     aggmfinalextra = False, aggsortop = 0, aggtranstype = 1016, aggtransspace = 0,
     aggmtranstype = 0, aggmtransspace = 0, agginitval = None, aggminitval = None\<rparr>"

definition agg_6218 :: FormData_pg_aggregate where
  "agg_6218 = \<lparr>aggfnoid = 6218, aggkind = CHR ''n'', aggnumdirectargs = 0,
     aggtransfn = ''int8_matrix_accum'', aggfinalfn = ''-'',
     aggcombinefn = ''int8_matrix_accum'', aggserialfn = ''-'', aggdeserialfn = ''-'',
     aggmtransfn = ''-'', aggminvtransfn = ''-'', aggmfinalfn = ''-'', aggfinalextra = False,
     aggmfinalextra = False, aggsortop = 0, aggtranstype = 1016, aggtransspace = 0,
     aggmtranstype = 0, aggmtransspace = 0, agginitval = None, aggminitval = None\<rparr>"

definition agg_6219 :: FormData_pg_aggregate where
  "agg_6219 = \<lparr>aggfnoid = 6219, aggkind = CHR ''n'', aggnumdirectargs = 0,
     aggtransfn = ''float8_matrix_accum'', aggfinalfn = ''-'',
     aggcombinefn = ''float8_matrix_accum'', aggserialfn = ''-'', aggdeserialfn = ''-'',
     aggmtransfn = ''-'', aggminvtransfn = ''-'', aggmfinalfn = ''-'', aggfinalextra = False,
     aggmfinalextra = False, aggsortop = 0, aggtranstype = 1022, aggtransspace = 0,
     aggmtranstype = 0, aggmtransspace = 0, agginitval = None, aggminitval = None\<rparr>"

definition matrix_sum_rows :: "FormData_pg_aggregate list" where
  "matrix_sum_rows = [agg_6216, agg_6217, agg_6218, agg_6219]"

subsubsection \<open>pivot_sum(...)\<close>

definition agg_6226 :: FormData_pg_aggregate where
  "agg_6226 = \<lparr>aggfnoid = 6226, aggkind = CHR ''n'', aggnumdirectargs = 0,
     aggtransfn = ''int4_pivot_accum'', aggfinalfn = ''-'',
     aggcombinefn = ''int8_matrix_accum'', aggserialfn = ''-'', aggdeserialfn = ''-'',
     aggmtransfn = ''-'', aggminvtransfn = ''-'', aggmfinalfn = ''-'', aggfinalextra = False,
     aggmfinalextra = False, aggsortop = 0, aggtranstype = 1007, aggtransspace = 0,
     aggmtranstype = 0, aggmtransspace = 0, agginitval = None, aggminitval = None\<rparr>"

definition agg_6228 :: FormData_pg_aggregate where
  "agg_6228 = \<lparr>aggfnoid = 6228, aggkind = CHR ''n'', aggnumdirectargs = 0,
     aggtransfn = ''int8_pivot_accum'', aggfinalfn = ''-'',
     aggcombinefn = ''int8_matrix_accum'', aggserialfn = ''-'', aggdeserialfn = ''-'',
     aggmtransfn = ''-'', aggminvtransfn = ''-'', aggmfinalfn = ''-'', aggfinalextra = False,
     aggmfinalextra = False, aggsortop = 0, aggtranstype = 1016, aggtransspace = 0,
     aggmtranstype = 0, aggmtransspace = 0, agginitval = None, aggminitval = None\<rparr>"

definition agg_6230 :: FormData_pg_aggregate where
  "agg_6230 = \<lparr>aggfnoid = 6230, aggkind = CHR ''n'', aggnumdirectargs = 0,
     aggtransfn = ''float8_pivot_accum'', aggfinalfn = ''-'',
     aggcombinefn = ''float8_matrix_accum'', aggserialfn = ''-'', aggdeserialfn = ''-'',
     aggmtransfn = ''-'', aggminvtransfn = ''-'', aggmfinalfn = ''-'', aggfinalextra = False,
     aggmfinalextra = False, aggsortop = 0, aggtranstype = 1022, aggtransspace = 0,
     aggmtranstype = 0, aggmtransspace = 0, agginitval = None, aggminitval = None\<rparr>"

definition pivot_sum_rows :: "FormData_pg_aggregate list" where
  "pivot_sum_rows = [agg_6226, agg_6228, agg_6230]"

subsubsection \<open>xml\<close>

definition agg_2901 :: FormData_pg_aggregate where
  "agg_2901 = \<lparr>aggfnoid = 2901, aggkind = CHR ''n'', aggnumdirectargs = 0,
     aggtransfn = ''xmlconcat2'', aggfinalfn = ''-'', aggcombinefn = ''-'',
     aggserialfn = ''-'', aggdeserialfn = ''-'', aggmtransfn = ''-'', aggminvtransfn = ''-'',
     aggmfinalfn = ''-'', aggfinalextra = False, aggmfinalextra = False, aggsortop = 0,
     aggtranstype = 142, aggtransspace = 0, aggmtranstype = 0, aggmtransspace = 0,
     agginitval = None, aggminitval = None\<rparr>"

definition xml_rows :: "FormData_pg_aggregate list" where
  "xml_rows = [agg_2901]"

subsubsection \<open>array\<close>

definition agg_2335 :: FormData_pg_aggregate where
  "agg_2335 = \<lparr>aggfnoid = 2335, aggkind = CHR ''n'', aggnumdirectargs = 0,
     aggtransfn = ''array_agg_transfn'', aggfinalfn = ''array_agg_finalfn'',
     aggcombinefn = ''-'', aggserialfn = ''-'', aggdeserialfn = ''-'', aggmtransfn = ''-'',
     aggminvtransfn = ''-'', aggmfinalfn = ''-'', aggfinalextra = True, aggmfinalextra = False,
     aggsortop = 0, aggtranstype = 2281, aggtransspace = 0, aggmtranstype = 0,
     aggmtransspace = 0, agginitval = None, aggminitval = None\<rparr>"

definition array_agg_rows :: "FormData_pg_aggregate list" where
  "array_agg_rows = [agg_2335]"

subsubsection \<open>ordered-set and hypothetical-set aggregates\<close>

definition agg_3972 :: FormData_pg_aggregate where
  "agg_3972 = \<lparr>aggfnoid = 3972, aggkind = CHR ''o'', aggnumdirectargs = 1,
     aggtransfn = ''ordered_set_transition'', aggfinalfn = ''percentile_disc_final'',
     aggcombinefn = ''-'', aggserialfn = ''-'', aggdeserialfn = ''-'', aggmtransfn = ''-'',
     aggminvtransfn = ''-'', aggmfinalfn = ''-'', aggfinalextra = True, aggmfinalextra = False,
     aggsortop = 0, aggtranstype = 2281, aggtransspace = 0, aggmtranstype = 0,
     aggmtransspace = 0, agginitval = None, aggminitval = None\<rparr>"

definition agg_3974 :: FormData_pg_aggregate where
  "agg_3974 = \<lparr>aggfnoid = 3974, aggkind = CHR ''o'', aggnumdirectargs = 1,
     aggtransfn = ''ordered_set_transition'', aggfinalfn = ''percentile_cont_float8_final'',
     aggcombinefn = ''-'', aggserialfn = ''-'', aggdeserialfn = ''-'', aggmtransfn = ''-'',
     aggminvtransfn = ''-'', aggmfinalfn = ''-'', aggfinalextra = False,
     aggmfinalextra = False, aggsortop = 0, aggtranstype = 2281, aggtransspace = 0,
     aggmtranstype = 0, aggmtransspace = 0, agginitval = None, aggminitval = None\<rparr>"

definition agg_3976 :: FormData_pg_aggregate where
  "agg_3976 = \<lparr>aggfnoid = 3976, aggkind = CHR ''o'', aggnumdirectargs = 1,
     aggtransfn = ''ordered_set_transition'', aggfinalfn = ''percentile_cont_interval_final'',
     aggcombinefn = ''-'', aggserialfn = ''-'', aggdeserialfn = ''-'', aggmtransfn = ''-'',
     aggminvtransfn = ''-'', aggmfinalfn = ''-'', aggfinalextra = False,
     aggmfinalextra = False, aggsortop = 0, aggtranstype = 2281, aggtransspace = 0,
     aggmtranstype = 0, aggmtransspace = 0, agginitval = None, aggminitval = None\<rparr>"

definition agg_3978 :: FormData_pg_aggregate where
  "agg_3978 = \<lparr>aggfnoid = 3978, aggkind = CHR ''o'', aggnumdirectargs = 1,
     aggtransfn = ''ordered_set_transition'', aggfinalfn = ''percentile_disc_multi_final'',
     aggcombinefn = ''-'', aggserialfn = ''-'', aggdeserialfn = ''-'', aggmtransfn = ''-'',
     aggminvtransfn = ''-'', aggmfinalfn = ''-'', aggfinalextra = True, aggmfinalextra = False,
     aggsortop = 0, aggtranstype = 2281, aggtransspace = 0, aggmtranstype = 0,
     aggmtransspace = 0, agginitval = None, aggminitval = None\<rparr>"

definition agg_3980 :: FormData_pg_aggregate where
  "agg_3980 = \<lparr>aggfnoid = 3980, aggkind = CHR ''o'', aggnumdirectargs = 1,
     aggtransfn = ''ordered_set_transition'',
     aggfinalfn = ''percentile_cont_float8_multi_final'', aggcombinefn = ''-'',
     aggserialfn = ''-'', aggdeserialfn = ''-'', aggmtransfn = ''-'', aggminvtransfn = ''-'',
     aggmfinalfn = ''-'', aggfinalextra = False, aggmfinalextra = False, aggsortop = 0,
     aggtranstype = 2281, aggtransspace = 0, aggmtranstype = 0, aggmtransspace = 0,
     agginitval = None, aggminitval = None\<rparr>"

definition agg_3982 :: FormData_pg_aggregate where
  "agg_3982 = \<lparr>aggfnoid = 3982, aggkind = CHR ''o'', aggnumdirectargs = 1,
     aggtransfn = ''ordered_set_transition'',
     aggfinalfn = ''percentile_cont_interval_multi_final'', aggcombinefn = ''-'',
     aggserialfn = ''-'', aggdeserialfn = ''-'', aggmtransfn = ''-'', aggminvtransfn = ''-'',
     aggmfinalfn = ''-'', aggfinalextra = False, aggmfinalextra = False, aggsortop = 0,
     aggtranstype = 2281, aggtransspace = 0, aggmtranstype = 0, aggmtransspace = 0,
     agginitval = None, aggminitval = None\<rparr>"

definition agg_3984 :: FormData_pg_aggregate where
  "agg_3984 = \<lparr>aggfnoid = 3984, aggkind = CHR ''o'', aggnumdirectargs = 0,
     aggtransfn = ''ordered_set_transition'', aggfinalfn = ''mode_final'',
     aggcombinefn = ''-'', aggserialfn = ''-'', aggdeserialfn = ''-'', aggmtransfn = ''-'',
     aggminvtransfn = ''-'', aggmfinalfn = ''-'', aggfinalextra = True, aggmfinalextra = False,
     aggsortop = 0, aggtranstype = 2281, aggtransspace = 0, aggmtranstype = 0,
     aggmtransspace = 0, agginitval = None, aggminitval = None\<rparr>"

definition agg_3986 :: FormData_pg_aggregate where
  "agg_3986 = \<lparr>aggfnoid = 3986, aggkind = CHR ''h'', aggnumdirectargs = 1,
     aggtransfn = ''ordered_set_transition_multi'', aggfinalfn = ''rank_final'',
     aggcombinefn = ''-'', aggserialfn = ''-'', aggdeserialfn = ''-'', aggmtransfn = ''-'',
     aggminvtransfn = ''-'', aggmfinalfn = ''-'', aggfinalextra = True, aggmfinalextra = False,
     aggsortop = 0, aggtranstype = 2281, aggtransspace = 0, aggmtranstype = 0,
     aggmtransspace = 0, agginitval = None, aggminitval = None\<rparr>"

definition agg_3988 :: FormData_pg_aggregate where
  "agg_3988 = \<lparr>aggfnoid = 3988, aggkind = CHR ''h'', aggnumdirectargs = 1,
     aggtransfn = ''ordered_set_transition_multi'', aggfinalfn = ''percent_rank_final'',
     aggcombinefn = ''-'', aggserialfn = ''-'', aggdeserialfn = ''-'', aggmtransfn = ''-'',
     aggminvtransfn = ''-'', aggmfinalfn = ''-'', aggfinalextra = True, aggmfinalextra = False,
     aggsortop = 0, aggtranstype = 2281, aggtransspace = 0, aggmtranstype = 0,
     aggmtransspace = 0, agginitval = None, aggminitval = None\<rparr>"

definition agg_3990 :: FormData_pg_aggregate where
  "agg_3990 = \<lparr>aggfnoid = 3990, aggkind = CHR ''h'', aggnumdirectargs = 1,
     aggtransfn = ''ordered_set_transition_multi'', aggfinalfn = ''cume_dist_final'',
     aggcombinefn = ''-'', aggserialfn = ''-'', aggdeserialfn = ''-'', aggmtransfn = ''-'',
     aggminvtransfn = ''-'', aggmfinalfn = ''-'', aggfinalextra = True, aggmfinalextra = False,
     aggsortop = 0, aggtranstype = 2281, aggtransspace = 0, aggmtranstype = 0,
     aggmtransspace = 0, agginitval = None, aggminitval = None\<rparr>"

definition agg_3992 :: FormData_pg_aggregate where
  "agg_3992 = \<lparr>aggfnoid = 3992, aggkind = CHR ''h'', aggnumdirectargs = 1,
     aggtransfn = ''ordered_set_transition_multi'', aggfinalfn = ''dense_rank_final'',
     aggcombinefn = ''-'', aggserialfn = ''-'', aggdeserialfn = ''-'', aggmtransfn = ''-'',
     aggminvtransfn = ''-'', aggmfinalfn = ''-'', aggfinalextra = True, aggmfinalextra = False,
     aggsortop = 0, aggtranstype = 2281, aggtransspace = 0, aggmtranstype = 0,
     aggmtransspace = 0, agginitval = None, aggminitval = None\<rparr>"

definition ordered_set_rows :: "FormData_pg_aggregate list" where
  "ordered_set_rows = [agg_3972, agg_3974, agg_3976, agg_3978, agg_3980, agg_3982, agg_3984,
     agg_3986, agg_3988, agg_3990, agg_3992]"

subsubsection \<open>GPDB: additional variants of percentile_cont, for timestamps\<close>

definition agg_6119 :: FormData_pg_aggregate where
  "agg_6119 = \<lparr>aggfnoid = 6119, aggkind = CHR ''o'', aggnumdirectargs = 1,
     aggtransfn = ''ordered_set_transition'', aggfinalfn = ''percentile_cont_timestamp_final'',
     aggcombinefn = ''-'', aggserialfn = ''-'', aggdeserialfn = ''-'', aggmtransfn = ''-'',
     aggminvtransfn = ''-'', aggmfinalfn = ''-'', aggfinalextra = False,
     aggmfinalextra = False, aggsortop = 0, aggtranstype = 2281, aggtransspace = 0,
     aggmtranstype = 0, aggmtransspace = 0, agginitval = None, aggminitval = None\<rparr>"

definition agg_6121 :: FormData_pg_aggregate where
  "agg_6121 = \<lparr>aggfnoid = 6121, aggkind = CHR ''o'', aggnumdirectargs = 1,
     aggtransfn = ''ordered_set_transition'',
     aggfinalfn = ''percentile_cont_timestamp_multi_final'', aggcombinefn = ''-'',
     aggserialfn = ''-'', aggdeserialfn = ''-'', aggmtransfn = ''-'', aggminvtransfn = ''-'',
     aggmfinalfn = ''-'', aggfinalextra = False, aggmfinalextra = False, aggsortop = 0,
     aggtranstype = 2281, aggtransspace = 0, aggmtranstype = 0, aggmtransspace = 0,
     agginitval = None, aggminitval = None\<rparr>"

definition agg_6123 :: FormData_pg_aggregate where
  "agg_6123 = \<lparr>aggfnoid = 6123, aggkind = CHR ''o'', aggnumdirectargs = 1,
     aggtransfn = ''ordered_set_transition'',
     aggfinalfn = ''percentile_cont_timestamptz_final'', aggcombinefn = ''-'',
     aggserialfn = ''-'', aggdeserialfn = ''-'', aggmtransfn = ''-'', aggminvtransfn = ''-'',
     aggmfinalfn = ''-'', aggfinalextra = False, aggmfinalextra = False, aggsortop = 0,
     aggtranstype = 2281, aggtransspace = 0, aggmtranstype = 0, aggmtransspace = 0,
     agginitval = None, aggminitval = None\<rparr>"

definition agg_6125 :: FormData_pg_aggregate where
  "agg_6125 = \<lparr>aggfnoid = 6125, aggkind = CHR ''o'', aggnumdirectargs = 1,
     aggtransfn = ''ordered_set_transition'',
     aggfinalfn = ''percentile_cont_timestamptz_multi_final'', aggcombinefn = ''-'',
     aggserialfn = ''-'', aggdeserialfn = ''-'', aggmtransfn = ''-'', aggminvtransfn = ''-'',
     aggmfinalfn = ''-'', aggfinalextra = False, aggmfinalextra = False, aggsortop = 0,
     aggtranstype = 2281, aggtransspace = 0, aggmtranstype = 0, aggmtransspace = 0,
     agginitval = None, aggminitval = None\<rparr>"

definition percentile_timestamp_rows :: "FormData_pg_aggregate list" where
  "percentile_timestamp_rows = [agg_6119, agg_6121, agg_6123, agg_6125]"

subsubsection \<open>median\<close>

definition agg_6127 :: FormData_pg_aggregate where
  "agg_6127 = \<lparr>aggfnoid = 6127, aggkind = CHR ''o'', aggnumdirectargs = 1,
     aggtransfn = ''ordered_set_transition'', aggfinalfn = ''percentile_cont_float8_final'',
     aggcombinefn = ''-'', aggserialfn = ''-'', aggdeserialfn = ''-'', aggmtransfn = ''-'',
     aggminvtransfn = ''-'', aggmfinalfn = ''-'', aggfinalextra = False,
     aggmfinalextra = False, aggsortop = 0, aggtranstype = 2281, aggtransspace = 0,
     aggmtranstype = 0, aggmtransspace = 0, agginitval = None, aggminitval = None\<rparr>"

definition agg_6128 :: FormData_pg_aggregate where
  "agg_6128 = \<lparr>aggfnoid = 6128, aggkind = CHR ''o'', aggnumdirectargs = 1,
     aggtransfn = ''ordered_set_transition'', aggfinalfn = ''percentile_cont_interval_final'',
     aggcombinefn = ''-'', aggserialfn = ''-'', aggdeserialfn = ''-'', aggmtransfn = ''-'',
     aggminvtransfn = ''-'', aggmfinalfn = ''-'', aggfinalextra = False,
     aggmfinalextra = False, aggsortop = 0, aggtranstype = 2281, aggtransspace = 0,
     aggmtranstype = 0, aggmtransspace = 0, agginitval = None, aggminitval = None\<rparr>"

definition agg_6129 :: FormData_pg_aggregate where
  "agg_6129 = \<lparr>aggfnoid = 6129, aggkind = CHR ''o'', aggnumdirectargs = 1,
     aggtransfn = ''ordered_set_transition'', aggfinalfn = ''percentile_cont_timestamp_final'',
     aggcombinefn = ''-'', aggserialfn = ''-'', aggdeserialfn = ''-'', aggmtransfn = ''-'',
     aggminvtransfn = ''-'', aggmfinalfn = ''-'', aggfinalextra = False,
     aggmfinalextra = False, aggsortop = 0, aggtranstype = 2281, aggtransspace = 0,
     aggmtranstype = 0, aggmtransspace = 0, agginitval = None, aggminitval = None\<rparr>"

definition agg_6130 :: FormData_pg_aggregate where
  "agg_6130 = \<lparr>aggfnoid = 6130, aggkind = CHR ''o'', aggnumdirectargs = 1,
     aggtransfn = ''ordered_set_transition'',
     aggfinalfn = ''percentile_cont_timestamptz_final'', aggcombinefn = ''-'',
     aggserialfn = ''-'', aggdeserialfn = ''-'', aggmtransfn = ''-'', aggminvtransfn = ''-'',
     aggmfinalfn = ''-'', aggfinalextra = False, aggmfinalextra = False, aggsortop = 0,
     aggtranstype = 2281, aggtransspace = 0, aggmtranstype = 0, aggmtransspace = 0,
     agginitval = None, aggminitval = None\<rparr>"

definition median_rows :: "FormData_pg_aggregate list" where
  "median_rows = [agg_6127, agg_6128, agg_6129, agg_6130]"

subsubsection \<open>text\<close>

definition agg_3538 :: FormData_pg_aggregate where
  "agg_3538 = \<lparr>aggfnoid = 3538, aggkind = CHR ''n'', aggnumdirectargs = 0,
     aggtransfn = ''string_agg_transfn'', aggfinalfn = ''string_agg_finalfn'',
     aggcombinefn = ''-'', aggserialfn = ''-'', aggdeserialfn = ''-'', aggmtransfn = ''-'',
     aggminvtransfn = ''-'', aggmfinalfn = ''-'', aggfinalextra = False,
     aggmfinalextra = False, aggsortop = 0, aggtranstype = 2281, aggtransspace = 0,
     aggmtranstype = 0, aggmtransspace = 0, agginitval = None, aggminitval = None\<rparr>"

definition string_agg_rows :: "FormData_pg_aggregate list" where
  "string_agg_rows = [agg_3538]"

subsubsection \<open>bytea\<close>

definition agg_3545 :: FormData_pg_aggregate where
  "agg_3545 = \<lparr>aggfnoid = 3545, aggkind = CHR ''n'', aggnumdirectargs = 0,
     aggtransfn = ''bytea_string_agg_transfn'', aggfinalfn = ''bytea_string_agg_finalfn'',
     aggcombinefn = ''-'', aggserialfn = ''-'', aggdeserialfn = ''-'', aggmtransfn = ''-'',
     aggminvtransfn = ''-'', aggmfinalfn = ''-'', aggfinalextra = False,
     aggmfinalextra = False, aggsortop = 0, aggtranstype = 2281, aggtransspace = 0,
     aggmtranstype = 0, aggmtransspace = 0, agginitval = None, aggminitval = None\<rparr>"

definition bytea_agg_rows :: "FormData_pg_aggregate list" where
  "bytea_agg_rows = [agg_3545]"

subsubsection \<open>hyperloglog\<close>

definition agg_7164 :: FormData_pg_aggregate where
  "agg_7164 = \<lparr>aggfnoid = 7164, aggkind = CHR ''n'', aggnumdirectargs = 0,
     aggtransfn = ''gp_hyperloglog_add_item_agg_default'',
     aggfinalfn = ''gp_hyperloglog_comp'', aggcombinefn = ''gp_hyperloglog_merge'',
     aggserialfn = ''-'', aggdeserialfn = ''-'', aggmtransfn = ''-'', aggminvtransfn = ''-'',
     aggmfinalfn = ''-'', aggfinalextra = False, aggmfinalextra = False, aggsortop = 0,
     aggtranstype = 7157, aggtransspace = 0, aggmtranstype = 0, aggmtransspace = 0,
     agginitval = None, aggminitval = None\<rparr>"

definition hyperloglog_rows :: "FormData_pg_aggregate list" where
  "hyperloglog_rows = [agg_7164]"

subsubsection \<open>json\<close>

definition agg_3175 :: FormData_pg_aggregate where
  "agg_3175 = \<lparr>aggfnoid = 3175, aggkind = CHR ''n'', aggnumdirectargs = 0,
     aggtransfn = ''json_agg_transfn'', aggfinalfn = ''json_agg_finalfn'',
     aggcombinefn = ''-'', aggserialfn = ''-'', aggdeserialfn = ''-'', aggmtransfn = ''-'',
     aggminvtransfn = ''-'', aggmfinalfn = ''-'', aggfinalextra = False,
     aggmfinalextra = False, aggsortop = 0, aggtranstype = 2281, aggtransspace = 0,
     aggmtranstype = 0, aggmtransspace = 0, agginitval = None, aggminitval = None\<rparr>"

definition agg_3197 :: FormData_pg_aggregate where
  "agg_3197 = \<lparr>aggfnoid = 3197, aggkind = CHR ''n'', aggnumdirectargs = 0,
     aggtransfn = ''json_object_agg_transfn'', aggfinalfn = ''json_object_agg_finalfn'',
     aggcombinefn = ''-'', aggserialfn = ''-'', aggdeserialfn = ''-'', aggmtransfn = ''-'',
     aggminvtransfn = ''-'', aggmfinalfn = ''-'', aggfinalextra = False,
     aggmfinalextra = False, aggsortop = 0, aggtranstype = 2281, aggtransspace = 0,
     aggmtranstype = 0, aggmtransspace = 0, agginitval = None, aggminitval = None\<rparr>"

definition json_rows :: "FormData_pg_aggregate list" where
  "json_rows = [agg_3175, agg_3197]"

text \<open>The initial contents of the relation: every DATA row, in the order of the file.\<close>

definition pg_aggregate :: "FormData_pg_aggregate list" where
  "pg_aggregate =
     avg_rows @ sum_rows @ max_rows @ min_rows @ count_rows @ var_pop_rows @ var_samp_rows @
     variance_rows @ stddev_pop_rows @ stddev_samp_rows @ stddev_rows @ regr_rows @ bool_rows @
     bitwise_rows @ array_sum_rows @ matrix_sum_rows @ pivot_sum_rows @ xml_rows @
     array_agg_rows @ ordered_set_rows @ percentile_timestamp_rows @ median_rows @
     string_agg_rows @ bytea_agg_rows @ hyperloglog_rows @ json_rows"

subsection \<open>Type identifiers used by the rows\<close>

text \<open>
  Modelled from the spec: the header does not define the type identifiers that its
  \<^verbatim>\<open>aggtranstype\<close> column holds (they are rows of another relation). The opaque,
  pointer-like state type \<^verbatim>\<open>internal\<close>, which is not copyable by value, is the
  identifier 2281.
\<close>

definition INTERNALOID :: Oid where
  "INTERNALOID = 2281"

subsection \<open>Row predicates\<close>

text \<open>
  A moving-aggregate forward function declared without its inverse function.
\<close>

definition mtrans_without_minvtrans :: "FormData_pg_aggregate \<Rightarrow> bool" where
  "mtrans_without_minvtrans r =
     (regproc_present (aggmtransfn r) \<and> \<not> regproc_present (aggminvtransfn r))"

section \<open>Executing the registered callbacks\<close>

text \<open>
  The header names the callbacks of every aggregate; it holds neither their code nor the
  executor that drives them. The definitions of this section follow the specification of the
  execution contract instead: its transition state model (\<open>initialize\<close>, \<open>advance\<close>,
  \<open>finalize\<close>) and its Sequential and Parallelizable strategies, for the callbacks that
  the count and max rows register.
\<close>

type_synonym int4 = "32 word"
type_synonym int8 = "64 word"

subsection \<open>count\<close>

text \<open>
  Modelled from the spec: the failure of a callback, which the header has no type for. The
  spec lets every transition, combine and serialize callback raise an error
  (\<open>ExecutionError.CallbackFailure\<close>), which aborts the aggregation and is propagated
  unchanged.
\<close>

datatype ExecutionError = CallbackFailure

text \<open>
  Modelled from the spec: the values of the state type \<^verbatim>\<open>int8\<close> (type 20 in the
  count rows), a signed 64-bit integer: the integers from \<open>- (2 ^ 63)\<close> to
  \<open>2 ^ 63 - 1\<close>.
\<close>

definition int8_in_range :: "int \<Rightarrow> bool" where
  "int8_in_range i = (- (2 ^ 63) \<le> i \<and> i < 2 ^ 63)"

text \<open>
  Modelled from the spec: \<^verbatim>\<open>int8inc\<close>, the transition function of row 2803, whose
  code is not in the header. It ``increments by 1''. The spec counts this aggregate among
  the exact-arithmetic ones and gives every callback a way to fail, and it names no result
  for a sum that \<^verbatim>\<open>int8\<close> cannot hold; the model returns the exact sum where it fits
  and fails where it does not, so that no state is ever a wrapped-around count.
\<close>

definition int8inc :: "int8 \<Rightarrow> ExecutionError + int8" where
  "int8inc s = (if int8_in_range (sint s + 1) then Inr (s + 1) else Inl CallbackFailure)"

text \<open>
  Modelled from the spec: \<^verbatim>\<open>int8pl\<close>, the combine function of rows 2147 and 2803,
  whose code is not in the header: the addition of two \<^verbatim>\<open>int8\<close> states, exact where
  the sum fits in \<^verbatim>\<open>int8\<close> and failing where it does not, as for \<^verbatim>\<open>int8inc\<close>.
\<close>

definition int8pl :: "int8 \<Rightarrow> int8 \<Rightarrow> ExecutionError + int8" where
  "int8pl a b = (if int8_in_range (sint a + sint b) then Inr (a + b) else Inl CallbackFailure)"

text \<open>
  Modelled from the spec: \<open>initialize\<close> of the executor, missing from the header, for the
  count rows. It produces the seed state from the initial value, which rows 2147 and 2803
  give as the literal \<^verbatim>\<open>"0"\<close>.
\<close>

definition count_initialize :: int8 where
  "count_initialize = 0"

text \<open>
  Modelled from the spec: \<open>advance\<close> of the executor, missing from the header. It invokes
  the transition function once per input row, whatever the row holds.
\<close>

definition count_advance :: "int8 \<Rightarrow> 'row \<Rightarrow> ExecutionError + int8" where
  "count_advance s row = int8inc s"

text \<open>
  Modelled from the spec: \<open>finalize\<close> of the executor, missing from the header. The final
  function of the count rows is absent (\<^verbatim>\<open>-\<close>), so the transition state itself is the
  result.
\<close>

definition count_finalize :: "int8 \<Rightarrow> int8" where
  "count_finalize s = s"

text \<open>
  Modelled from the spec: the loop of the executor over the input rows, missing from the
  header. The state is advanced once per row in delivery order; a failing transition
  aborts the aggregation.
\<close>

fun advance_all :: "int8 \<Rightarrow> 'row list \<Rightarrow> ExecutionError + int8" where
  "advance_all s [] = Inr s"
| "advance_all s (row # rows) =
     (case count_advance s row of Inl e \<Rightarrow> Inl e | Inr s' \<Rightarrow> advance_all s' rows)"

text \<open>
  Modelled from the spec: a worker of the executor, missing from the header. It keeps one
  state, seeded by \<open>initialize\<close>, and advances it over its rows.
\<close>

definition count_worker :: "'row list \<Rightarrow> ExecutionError + int8" where
  "count_worker rows = advance_all count_initialize rows"

text \<open>
  Modelled from the spec: the Sequential strategy of the executor, missing from the header:
  one state, advanced once per input row, finalized once at the end.
\<close>

definition count_sequential :: "'row list \<Rightarrow> ExecutionError + int8" where
  "count_sequential rows =
     (case count_worker rows of Inl e \<Rightarrow> Inl e | Inr s \<Rightarrow> Inr (count_finalize s))"

text \<open>
  Modelled from the spec: the transfer of the workers' partial states to the reducer,
  missing from the header. The states are transferred by value (the count rows declare no
  serialization function); the failure of any worker is fatal to the aggregation.
\<close>

fun transfer_all :: "(ExecutionError + int8) list \<Rightarrow> ExecutionError + int8 list" where
  "transfer_all [] = Inr []"
| "transfer_all (Inl e # rs) = Inl e"
| "transfer_all (Inr s # rs) =
     (case transfer_all rs of Inl e \<Rightarrow> Inl e | Inr ss \<Rightarrow> Inr (s # ss))"

text \<open>
  Modelled from the spec: the reducer's fold, missing from the header: the partial states
  go through the combine function one after the other, and a failing combine aborts.
\<close>

fun combine_all :: "int8 \<Rightarrow> int8 list \<Rightarrow> ExecutionError + int8" where
  "combine_all acc [] = Inr acc"
| "combine_all acc (p # ps) =
     (case int8pl acc p of Inl e \<Rightarrow> Inl e | Inr acc' \<Rightarrow> combine_all acc' ps)"

text \<open>
  Modelled from the spec: the reducer of the Parallelizable strategy, missing from the
  header. It folds the partial states through the combine function, starting from the first
  of them. With no partial state there is nothing to combine and it holds the seed state.
\<close>

fun count_reduce :: "int8 list \<Rightarrow> ExecutionError + int8" where
  "count_reduce [] = Inr count_initialize"
| "count_reduce (s # ss) = combine_all s ss"

text \<open>
  Modelled from the spec: the Parallelizable strategy of the executor, missing from the
  header. Every partition of the input is aggregated by a worker of its own, the partial
  states are transferred and reduced, and the result is finalized.
\<close>

definition count_parallel :: "'row list list \<Rightarrow> ExecutionError + int8" where
  "count_parallel parts =
     (case transfer_all (map count_worker parts) of
        Inl e \<Rightarrow> Inl e
      | Inr ss \<Rightarrow> (case count_reduce ss of Inl e \<Rightarrow> Inl e | Inr s \<Rightarrow> Inr (count_finalize s)))"



text \<open>
  Modelled from the spec: the reachable transition states of the count aggregates: the
  seed state, and every state that a successful transition or a successful combine makes
  of reachable states.
\<close>

inductive count_reachable :: "int8 \<Rightarrow> bool" where
  seed: "count_reachable count_initialize"
| transition: "count_reachable s \<Longrightarrow> int8inc s = Inr s' \<Longrightarrow> count_reachable s'"
| combine: "count_reachable a \<Longrightarrow> count_reachable b \<Longrightarrow> int8pl a b = Inr s \<Longrightarrow> count_reachable s"

subsection \<open>max\<close>

text \<open>
  Modelled from the spec: \<^verbatim>\<open>int4larger\<close>, the transition and combine function of row
  2116, whose code is not in the header: the larger of two signed 32-bit integers.
\<close>

definition int4larger :: "int4 \<Rightarrow> int4 \<Rightarrow> int4" where
  "int4larger a b = (if sint a > sint b then a else b)"

text \<open>
  Modelled from the spec: \<^verbatim>\<open>int8larger\<close>, the transition and combine function of row
  2115, whose code is not in the header: the larger of two signed 64-bit integers.
\<close>

definition int8larger :: "int8 \<Rightarrow> int8 \<Rightarrow> int8" where
  "int8larger a b = (if sint a > sint b then a else b)"

text \<open>
  Modelled from the spec: \<open>advance\<close> of the executor, missing from the header, on a state
  that may be unseeded (\<open>None\<close>). The first input seeds an unseeded state; every later
  input goes through the transition function.
\<close>

definition unseeded_advance :: "('s \<Rightarrow> 's \<Rightarrow> 's) \<Rightarrow> 's option \<Rightarrow> 's \<Rightarrow> 's option" where
  "unseeded_advance transfn st x = (case st of None \<Rightarrow> Some x | Some s \<Rightarrow> Some (transfn s x))"

text \<open>
  Modelled from the spec: Sequential execution of max over \<^verbatim>\<open>int4\<close>, by the executor
  missing from the header. Row 2116 has no initial value (\<^verbatim>\<open>_null_\<close>), so
  \<open>initialize\<close> marks the state unseeded; the final function is absent, so the result is
  the state itself, still unseeded when no row was delivered.
\<close>

definition int4_max :: "int4 list \<Rightarrow> int4 option" where
  "int4_max rows = fold (\<lambda>x st. unseeded_advance int4larger st x) rows None"

text \<open>
  Modelled from the spec: Sequential execution of max over \<^verbatim>\<open>int8\<close> (row 2115), as for
  \<^verbatim>\<open>int4\<close>.
\<close>

definition int8_max :: "int8 list \<Rightarrow> int8 option" where
  "int8_max rows = fold (\<lambda>x st. unseeded_advance int8larger st x) rows None"

section \<open>Proofs\<close>

lemmas section_defs = avg_rows_def sum_rows_def max_rows_def min_rows_def count_rows_def
  var_pop_rows_def var_samp_rows_def variance_rows_def stddev_pop_rows_def stddev_samp_rows_def
  stddev_rows_def regr_rows_def bool_rows_def bitwise_rows_def array_sum_rows_def
  matrix_sum_rows_def pivot_sum_rows_def xml_rows_def array_agg_rows_def ordered_set_rows_def
  percentile_timestamp_rows_def median_rows_def string_agg_rows_def bytea_agg_rows_def
  hyperloglog_rows_def json_rows_def

lemmas row_defs = agg_2100_def agg_2101_def agg_2102_def agg_2103_def agg_2104_def agg_2105_def
  agg_2106_def agg_2107_def agg_2108_def agg_2109_def agg_2110_def agg_2111_def agg_2112_def
  agg_2113_def agg_2114_def agg_2115_def agg_2116_def agg_2117_def agg_2118_def agg_2119_def
  agg_2120_def agg_2121_def agg_2122_def agg_2123_def agg_2124_def agg_2125_def agg_2126_def
  agg_2127_def agg_2128_def agg_2129_def agg_2130_def agg_2050_def agg_2244_def agg_2797_def
  agg_3526_def agg_2131_def agg_2132_def agg_2133_def agg_2134_def agg_2135_def agg_2136_def
  agg_2137_def agg_2138_def agg_2139_def agg_2140_def agg_2141_def agg_2142_def agg_2143_def
  agg_2144_def agg_2145_def agg_2146_def agg_2051_def agg_2245_def agg_2798_def agg_3527_def
  agg_2147_def agg_2803_def agg_2718_def agg_2719_def agg_2720_def agg_2721_def agg_2722_def
  agg_2723_def agg_2641_def agg_2642_def agg_2643_def agg_2644_def agg_2645_def agg_2646_def
  agg_2148_def agg_2149_def agg_2150_def agg_2151_def agg_2152_def agg_2153_def agg_2724_def
  agg_2725_def agg_2726_def agg_2727_def agg_2728_def agg_2729_def agg_2712_def agg_2713_def
  agg_2714_def agg_2715_def agg_2716_def agg_2717_def agg_2154_def agg_2155_def agg_2156_def
  agg_2157_def agg_2158_def agg_2159_def agg_2818_def agg_2819_def agg_2820_def agg_2821_def
  agg_2822_def agg_2823_def agg_2824_def agg_2825_def agg_2826_def agg_2827_def agg_2828_def
  agg_2829_def agg_2517_def agg_2518_def agg_2519_def agg_2236_def agg_2237_def agg_2238_def
  agg_2239_def agg_2240_def agg_2241_def agg_2242_def agg_2243_def agg_6013_def agg_6216_def
  agg_6217_def agg_6218_def agg_6219_def agg_6226_def agg_6228_def agg_6230_def agg_2901_def
  agg_2335_def agg_3972_def agg_3974_def agg_3976_def agg_3978_def agg_3980_def agg_3982_def
  agg_3984_def agg_3986_def agg_3988_def agg_3990_def agg_3992_def agg_6119_def agg_6121_def
  agg_6123_def agg_6125_def agg_6127_def agg_6128_def agg_6129_def agg_6130_def agg_3538_def
  agg_3545_def agg_7164_def agg_3175_def agg_3197_def
subsection \<open>Reading the relation group by group\<close>

text \<open>
  A property holds of every row of the relation exactly when it holds of every row of each
  group. The groups are small, so each is checked by unfolding its rows.
\<close>

lemma pg_aggregate_all_iff:
  "(\<forall>r\<in>set pg_aggregate. P r) \<longleftrightarrow>
     list_all P avg_rows \<and> list_all P sum_rows \<and> list_all P max_rows \<and> list_all P min_rows \<and>
     list_all P count_rows \<and> list_all P var_pop_rows \<and> list_all P var_samp_rows \<and>
     list_all P variance_rows \<and> list_all P stddev_pop_rows \<and> list_all P stddev_samp_rows \<and>
     list_all P stddev_rows \<and> list_all P regr_rows \<and> list_all P bool_rows \<and>
     list_all P bitwise_rows \<and> list_all P array_sum_rows \<and> list_all P matrix_sum_rows \<and>
     list_all P pivot_sum_rows \<and> list_all P xml_rows \<and> list_all P array_agg_rows \<and>
     list_all P ordered_set_rows \<and> list_all P percentile_timestamp_rows \<and>
     list_all P median_rows \<and> list_all P string_agg_rows \<and> list_all P bytea_agg_rows \<and>
     list_all P hyperloglog_rows \<and> list_all P json_rows"
  by (simp add: pg_aggregate_def list_all_iff ball_Un)

lemmas kind_defs = AGGKIND_NORMAL_def AGGKIND_ORDERED_SET_def AGGKIND_HYPOTHETICAL_def

lemmas present_defs = regproc_present_def oid_present_def

lemma pg_aggregate_length: "length pg_aggregate = 150"
  by (simp add: pg_aggregate_def section_defs)

text \<open>Every row has one of the three kinds, so the macro singles out the kinds o and h.\<close>

lemma pg_aggregate_kinds:
  "\<forall>r\<in>set pg_aggregate.
     aggkind r \<in> {AGGKIND_NORMAL, AGGKIND_ORDERED_SET, AGGKIND_HYPOTHETICAL} \<and>
     AGGKIND_IS_ORDERED_SET (aggkind r) =
       (aggkind r = AGGKIND_ORDERED_SET \<or> aggkind r = AGGKIND_HYPOTHETICAL)"
  unfolding pg_aggregate_all_iff
  by (intro conjI) (simp_all add: section_defs row_defs kind_defs AGGKIND_IS_ORDERED_SET_def)

subsection \<open>Kind and number of direct arguments\<close>

lemma agg_3984_row: "agg_3984 \<in> set pg_aggregate"
  by (simp add: pg_aggregate_def section_defs)

text \<open>
  C1, as stated (the number of direct arguments is 0 if and only if the kind is Normal),
  fails at row 3984 (\<^verbatim>\<open>mode_final\<close>): an ordered-set aggregate that takes no direct
  argument.
\<close>

theorem mode_direct_args_counterexample:
  "agg_3984 \<in> set pg_aggregate \<and> aggkind agg_3984 = AGGKIND_ORDERED_SET \<and>
   \<not> ((aggnumdirectargs agg_3984 = 0) = (aggkind agg_3984 = AGGKIND_NORMAL))"
  by (simp add: agg_3984_row) (simp add: agg_3984_def kind_defs)

text \<open>
  C1, amended: in every row the number of direct arguments is 0 if and only if the kind is
  Normal or the row is 3984; in particular every Normal row has 0 direct arguments, and no
  Hypothetical row has 0 direct arguments.
\<close>

theorem numdirectargs_zero_iff:
  "\<forall>r\<in>set pg_aggregate.
     ((aggnumdirectargs r = 0) = (aggkind r = AGGKIND_NORMAL \<or> aggfnoid r = 3984)) \<and>
     (aggkind r = AGGKIND_HYPOTHETICAL \<longrightarrow> aggnumdirectargs r \<noteq> 0)"
  unfolding pg_aggregate_all_iff
  by (intro conjI) (simp_all add: section_defs row_defs kind_defs)

theorem numdirectargs_zero_iff_witness:
  "agg_3986 \<in> set pg_aggregate \<and> aggkind agg_3986 = AGGKIND_HYPOTHETICAL \<and>
   aggnumdirectargs agg_3986 \<noteq> 0 \<and> aggfnoid agg_3986 \<noteq> 3984"
  using numdirectargs_zero_iff [THEN bspec, of agg_3986]
  by (simp add: pg_aggregate_def section_defs) (simp add: agg_3986_def kind_defs)

subsection \<open>The moving-aggregate callbacks\<close>

lemma agg_2112_row: "agg_2112 \<in> set pg_aggregate"
  by (simp add: pg_aggregate_def section_defs)

text \<open>
  C2, as stated (the three moving-aggregate callbacks are all present or all absent), fails
  at row 2112 (\<^verbatim>\<open>cash_pl\<close>, \<^verbatim>\<open>cash_mi\<close>, \<^verbatim>\<open>-\<close>): the forward and the inverse
  function are declared, the moving final function is not.
\<close>

theorem cash_sum_moving_set_counterexample:
  "agg_2112 \<in> set pg_aggregate \<and> regproc_present (aggmtransfn agg_2112) \<and>
   regproc_present (aggminvtransfn agg_2112) \<and> \<not> regproc_present (aggmfinalfn agg_2112)"
  by (simp add: agg_2112_row) (simp add: agg_2112_def present_defs)

text \<open>The four rows that declare a forward and an inverse function and no moving final function.\<close>

lemma partial_moving_rows:
  "list_all (\<lambda>r. r \<in> set pg_aggregate \<and> regproc_present (aggmtransfn r) \<and>
      regproc_present (aggminvtransfn r) \<and> \<not> regproc_present (aggmfinalfn r))
     [agg_2112, agg_2113, agg_2147, agg_2803] \<and>
   map aggfnoid [agg_2112, agg_2113, agg_2147, agg_2803] = [2112, 2113, 2147, 2803]"
  by (simp add: pg_aggregate_def section_defs)
    (simp add: agg_2112_def agg_2113_def agg_2147_def agg_2803_def present_defs)

text \<open>
  C2, amended: in every row \<^verbatim>\<open>aggmtransfn\<close> and \<^verbatim>\<open>aggminvtransfn\<close> are both present
  or both absent, and \<^verbatim>\<open>aggmfinalfn\<close> is present only where they are. A row declares the
  two without a moving final function if and only if it is one of the rows 2112, 2113, 2147
  and 2803, and each of these four is a row of the relation of that shape.
\<close>

theorem moving_callbacks_shape:
  "(\<forall>r\<in>set pg_aggregate.
      (regproc_present (aggmtransfn r) = regproc_present (aggminvtransfn r)) \<and>
      (regproc_present (aggmfinalfn r) \<longrightarrow> regproc_present (aggmtransfn r)) \<and>
      ((regproc_present (aggmtransfn r) \<and> \<not> regproc_present (aggmfinalfn r)) =
         (aggfnoid r \<in> {2112, 2113, 2147, 2803}))) \<and>
   (\<forall>r\<in>set [agg_2112, agg_2113, agg_2147, agg_2803].
      r \<in> set pg_aggregate \<and> regproc_present (aggmtransfn r) \<and>
      regproc_present (aggminvtransfn r) \<and> \<not> regproc_present (aggmfinalfn r)) \<and>
   map aggfnoid [agg_2112, agg_2113, agg_2147, agg_2803] = [2112, 2113, 2147, 2803]"
proof (intro conjI)
  show "\<forall>r\<in>set pg_aggregate.
      (regproc_present (aggmtransfn r) = regproc_present (aggminvtransfn r)) \<and>
      (regproc_present (aggmfinalfn r) \<longrightarrow> regproc_present (aggmtransfn r)) \<and>
      ((regproc_present (aggmtransfn r) \<and> \<not> regproc_present (aggmfinalfn r)) =
         (aggfnoid r \<in> {2112, 2113, 2147, 2803}))"
    unfolding pg_aggregate_all_iff
    by (intro conjI) (simp_all add: section_defs row_defs present_defs)
  show "\<forall>r\<in>set [agg_2112, agg_2113, agg_2147, agg_2803].
      r \<in> set pg_aggregate \<and> regproc_present (aggmtransfn r) \<and>
      regproc_present (aggminvtransfn r) \<and> \<not> regproc_present (aggmfinalfn r)"
    using partial_moving_rows by (simp only: list_all_iff) simp
  show "map aggfnoid [agg_2112, agg_2113, agg_2147, agg_2803] = [2112, 2113, 2147, 2803]"
    using partial_moving_rows by simp
qed

theorem moving_callbacks_shape_witness:
  "agg_2113 \<in> set pg_aggregate \<and> aggfnoid agg_2113 \<in> {2112, 2113, 2147, 2803} \<and>
   regproc_present (aggmtransfn agg_2113) \<and> regproc_present (aggminvtransfn agg_2113) \<and>
   \<not> regproc_present (aggmfinalfn agg_2113) \<and>
   agg_2100 \<in> set pg_aggregate \<and> aggfnoid agg_2100 \<notin> {2112, 2113, 2147, 2803} \<and>
   regproc_present (aggmfinalfn agg_2100) \<and> regproc_present (aggmtransfn agg_2100) \<and>
   regproc_present (aggminvtransfn agg_2100) \<and>
   agg_2803 \<in> set [agg_2112, agg_2113, agg_2147, agg_2803] \<and> agg_2803 \<in> set pg_aggregate \<and>
   \<not> regproc_present (aggmfinalfn agg_2803)"
  using moving_callbacks_shape [THEN conjunct1, THEN bspec, of agg_2113]
    moving_callbacks_shape [THEN conjunct1, THEN bspec, of agg_2100]
    moving_callbacks_shape [THEN conjunct2, THEN conjunct1, THEN bspec, of agg_2803]
  by (simp add: pg_aggregate_def section_defs)
    (simp add: agg_2113_def agg_2100_def agg_2803_def present_defs)

text \<open>
  C3, as stated (some row, for example a bitwise AND/OR aggregate, declares a moving forward
  function and no moving inverse function), fails: no row of the relation does, and no
  bitwise row declares a moving forward function at all.
\<close>

theorem mtrans_without_minvtrans_counterexample:
  "\<not> list_ex mtrans_without_minvtrans pg_aggregate \<and>
   \<not> list_ex (\<lambda>r. regproc_present (aggmtransfn r)) bitwise_rows"
proof -
  have "\<forall>r\<in>set pg_aggregate. \<not> mtrans_without_minvtrans r"
    unfolding pg_aggregate_all_iff mtrans_without_minvtrans_def
    by (intro conjI) (simp_all add: section_defs row_defs present_defs)
  moreover have "\<not> list_ex (\<lambda>r. regproc_present (aggmtransfn r)) bitwise_rows"
    by (simp add: bitwise_rows_def row_defs present_defs)
  ultimately show ?thesis
    by (simp add: list_ex_iff)
qed

text \<open>
  C3, amended: every row that declares a moving forward function declares a moving inverse
  function; the bitwise AND/OR rows 2236 to 2243 declare neither, and the function named
  after their transition function is their combine function, the same function again.
\<close>

theorem mtrans_has_minvtrans:
  "(\<forall>r\<in>set pg_aggregate.
      regproc_present (aggmtransfn r) \<longrightarrow> regproc_present (aggminvtransfn r)) \<and>
   (\<forall>r\<in>set bitwise_rows. \<not> regproc_present (aggmtransfn r) \<and>
      \<not> regproc_present (aggminvtransfn r) \<and> aggcombinefn r = aggtransfn r)"
proof (intro conjI)
  show "\<forall>r\<in>set pg_aggregate.
      regproc_present (aggmtransfn r) \<longrightarrow> regproc_present (aggminvtransfn r)"
    unfolding pg_aggregate_all_iff
    by (intro conjI) (simp_all add: section_defs row_defs present_defs)
  show "\<forall>r\<in>set bitwise_rows. \<not> regproc_present (aggmtransfn r) \<and>
      \<not> regproc_present (aggminvtransfn r) \<and> aggcombinefn r = aggtransfn r"
    by (simp add: bitwise_rows_def row_defs present_defs)
qed

theorem mtrans_has_minvtrans_witness:
  "agg_2100 \<in> set pg_aggregate \<and> regproc_present (aggmtransfn agg_2100) \<and>
   regproc_present (aggminvtransfn agg_2100) \<and>
   agg_2236 \<in> set bitwise_rows \<and> agg_2236 \<in> set pg_aggregate \<and>
   \<not> regproc_present (aggmtransfn agg_2236) \<and> \<not> regproc_present (aggminvtransfn agg_2236) \<and>
   aggcombinefn agg_2236 = aggtransfn agg_2236"
  using mtrans_has_minvtrans [THEN conjunct1, THEN bspec, of agg_2100]
    mtrans_has_minvtrans [THEN conjunct2, THEN bspec, of agg_2236]
  by (simp add: pg_aggregate_def section_defs) (simp add: agg_2100_def agg_2236_def present_defs)

text \<open>
  C10. In every row a moving-aggregate state type is declared exactly when a moving forward
  function is: \<^verbatim>\<open>aggmtranstype\<close> is nonzero if and only if \<^verbatim>\<open>aggmtransfn\<close> is
  present; and \<^verbatim>\<open>aggminitval\<close> is non-null only where \<^verbatim>\<open>aggmtransfn\<close> is present.
\<close>

theorem moving_state_iff_mtransfn:
  "\<forall>r\<in>set pg_aggregate.
     (oid_present (aggmtranstype r) = regproc_present (aggmtransfn r)) \<and>
     (aggminitval r \<noteq> None \<longrightarrow> regproc_present (aggmtransfn r))"
  unfolding pg_aggregate_all_iff
  by (intro conjI) (simp_all add: section_defs row_defs present_defs)

theorem moving_state_iff_mtransfn_witness:
  "agg_2101 \<in> set pg_aggregate \<and> aggminitval agg_2101 \<noteq> None \<and>
   regproc_present (aggmtransfn agg_2101) \<and> oid_present (aggmtranstype agg_2101) \<and>
   agg_2104 \<in> set pg_aggregate \<and> \<not> regproc_present (aggmtransfn agg_2104) \<and>
   \<not> oid_present (aggmtranstype agg_2104)"
  using moving_state_iff_mtransfn [THEN bspec, of agg_2101]
    moving_state_iff_mtransfn [THEN bspec, of agg_2104]
  by (simp add: pg_aggregate_def section_defs) (simp add: agg_2101_def agg_2104_def present_defs)

subsection \<open>The serialization callbacks\<close>

text \<open>
  C7. In every row \<^verbatim>\<open>aggserialfn\<close> and \<^verbatim>\<open>aggdeserialfn\<close> are both present or both
  absent.
\<close>

theorem serial_pair_complete:
  "\<forall>r\<in>set pg_aggregate. regproc_present (aggserialfn r) = regproc_present (aggdeserialfn r)"
  unfolding pg_aggregate_all_iff
  by (intro conjI) (simp_all add: section_defs row_defs present_defs)

theorem serial_pair_complete_witness:
  "agg_2100 \<in> set pg_aggregate \<and> regproc_present (aggserialfn agg_2100) \<and>
   regproc_present (aggdeserialfn agg_2100) \<and>
   agg_2101 \<in> set pg_aggregate \<and> \<not> regproc_present (aggserialfn agg_2101) \<and>
   \<not> regproc_present (aggdeserialfn agg_2101)"
  using serial_pair_complete [THEN bspec, of agg_2100]
    serial_pair_complete [THEN bspec, of agg_2101]
  by (simp add: pg_aggregate_def section_defs) (simp add: agg_2100_def agg_2101_def present_defs)

text \<open>
  C8. Every row that declares a serialization or a deserialization function has the
  transition state type \<^verbatim>\<open>internal\<close> (2281); a row with any other state type declares
  neither.
\<close>

theorem serial_pair_internal_state:
  "\<forall>r\<in>set pg_aggregate.
     regproc_present (aggserialfn r) \<or> regproc_present (aggdeserialfn r) \<longrightarrow>
     aggtranstype r = INTERNALOID"
  unfolding pg_aggregate_all_iff
  by (intro conjI) (simp_all add: section_defs row_defs present_defs INTERNALOID_def)

theorem serial_pair_internal_state_witness:
  "agg_2100 \<in> set pg_aggregate \<and> regproc_present (aggserialfn agg_2100) \<and>
   aggtranstype agg_2100 = INTERNALOID"
  using serial_pair_internal_state [THEN bspec, of agg_2100]
  by (simp add: pg_aggregate_def section_defs) (simp add: agg_2100_def present_defs)

subsection \<open>Ordered-set and hypothetical-set rows\<close>

text \<open>
  C9. Every row of kind o or h declares no combine function, no serialization and
  deserialization function, and none of the three moving-aggregate callbacks.
\<close>

theorem ordered_set_no_parallel_no_moving:
  "\<forall>r\<in>set pg_aggregate.
     aggkind r = AGGKIND_ORDERED_SET \<or> aggkind r = AGGKIND_HYPOTHETICAL \<longrightarrow>
     \<not> regproc_present (aggcombinefn r) \<and> \<not> regproc_present (aggserialfn r) \<and>
     \<not> regproc_present (aggdeserialfn r) \<and> \<not> regproc_present (aggmtransfn r) \<and>
     \<not> regproc_present (aggminvtransfn r) \<and> \<not> regproc_present (aggmfinalfn r)"
  unfolding pg_aggregate_all_iff
  by (intro conjI) (simp_all add: section_defs row_defs present_defs kind_defs)

theorem ordered_set_no_parallel_no_moving_witness:
  "agg_3972 \<in> set pg_aggregate \<and> aggkind agg_3972 = AGGKIND_ORDERED_SET \<and>
   \<not> regproc_present (aggcombinefn agg_3972) \<and> \<not> regproc_present (aggserialfn agg_3972) \<and>
   \<not> regproc_present (aggdeserialfn agg_3972) \<and> \<not> regproc_present (aggmtransfn agg_3972) \<and>
   \<not> regproc_present (aggminvtransfn agg_3972) \<and> \<not> regproc_present (aggmfinalfn agg_3972) \<and>
   agg_3986 \<in> set pg_aggregate \<and> aggkind agg_3986 = AGGKIND_HYPOTHETICAL \<and>
   \<not> regproc_present (aggcombinefn agg_3986) \<and> \<not> regproc_present (aggmtransfn agg_3986)"
  using ordered_set_no_parallel_no_moving [THEN bspec, of agg_3972]
    ordered_set_no_parallel_no_moving [THEN bspec, of agg_3986]
  by (simp add: pg_aggregate_def section_defs) (simp add: agg_3972_def agg_3986_def kind_defs)

subsection \<open>count: sequential and partitioned execution\<close>

text \<open>What the relation registers for the two count aggregates.\<close>

lemma count_registration:
  "agg_2803 \<in> set pg_aggregate \<and> aggtransfn agg_2803 = ''int8inc'' \<and>
   aggcombinefn agg_2803 = ''int8pl'' \<and> \<not> regproc_present (aggfinalfn agg_2803) \<and>
   aggtranstype agg_2803 = 20 \<and> agginitval agg_2803 = Some ''0'' \<and>
   agg_2147 \<in> set pg_aggregate \<and> aggfnoid agg_2147 = AGGFNOID_COUNT_ANY \<and>
   aggcombinefn agg_2147 = ''int8pl'' \<and> \<not> regproc_present (aggfinalfn agg_2147) \<and>
   aggtranstype agg_2147 = 20 \<and> agginitval agg_2147 = Some ''0''"
  by (simp add: pg_aggregate_def section_defs)
    (simp add: agg_2803_def agg_2147_def present_defs AGGFNOID_COUNT_ANY_def)

text \<open>An addition whose exact sum fits in \<^verbatim>\<open>int8\<close> is read back as that sum.\<close>

lemma sint_add_exact:
  fixes a b :: int8
  assumes "int8_in_range (sint a + sint b)"
  shows "sint (a + b) = sint a + sint b"
proof -
  have "sint (a + b) = signed_take_bit 63 (sint a + sint b)"
    by (simp add: sint_word_ariths)
  also have "\<dots> = sint a + sint b"
    using assms by (simp add: int8_in_range_def signed_take_bit_int_eq_self)
  finally show ?thesis .
qed

lemma int8inc_nonneg:
  assumes "0 \<le> sint s" and "sint s + 1 < 2 ^ 63"
  shows "int8inc s = Inr (s + 1)" and "sint (s + 1) = sint s + 1"
proof -
  have r: "int8_in_range (sint s + sint (1 :: int8))"
    using assms by (simp add: int8_in_range_def)
  then show "int8inc s = Inr (s + 1)"
    by (simp add: int8inc_def)
  from sint_add_exact [OF r] show "sint (s + 1) = sint s + 1"
    by simp
qed

text \<open>
  A worker that starts from a non-negative state and whose row count fits in \<^verbatim>\<open>int8\<close>
  does not fail: its state is the start state plus the number of its rows.
\<close>

lemma advance_all_count:
  "0 \<le> sint s \<Longrightarrow> sint s + int (length rows) < 2 ^ 63 \<Longrightarrow>
   advance_all s rows = Inr (s + of_nat (length rows)) \<and>
   sint (s + of_nat (length rows)) = sint s + int (length rows)"
proof (induction rows arbitrary: s)
  case Nil
  then show ?case by simp
next
  case (Cons row rows)
  have lt: "sint s + 1 < 2 ^ 63"
    using Cons.prems by simp
  note inc = int8inc_nonneg [OF Cons.prems(1) lt]
  have "0 \<le> sint (s + 1)" "sint (s + 1) + int (length rows) < 2 ^ 63"
    using Cons.prems inc(2) by simp_all
  from Cons.IH [OF this] inc show ?case
    by (simp add: count_advance_def add_ac)
qed

lemma count_worker_length:
  assumes "int (length rows) < 2 ^ 63"
  shows "count_worker rows = Inr (of_nat (length rows))"
    and "sint (of_nat (length rows) :: int8) = int (length rows)"
  using advance_all_count [of 0 rows] assms
  by (simp_all add: count_worker_def count_initialize_def)

lemma int8pl_nonneg:
  assumes "0 \<le> sint a" and "0 \<le> sint b" and "sint a + sint b < 2 ^ 63"
  shows "int8pl a b = Inr (a + b)" and "sint (a + b) = sint a + sint b"
proof -
  have r: "int8_in_range (sint a + sint b)"
    using assms by (simp add: int8_in_range_def)
  then show "int8pl a b = Inr (a + b)"
    by (simp add: int8pl_def)
  from sint_add_exact [OF r] show "sint (a + b) = sint a + sint b" .
qed

lemma combine_all_sum:
  "0 \<le> sint acc \<Longrightarrow> \<forall>p\<in>set ps. 0 \<le> sint p \<Longrightarrow>
   sint acc + sum_list (map sint ps) < 2 ^ 63 \<Longrightarrow>
   combine_all acc ps = Inr (acc + sum_list ps) \<and>
   sint (acc + sum_list ps) = sint acc + sum_list (map sint ps)"
proof (induction ps arbitrary: acc)
  case Nil
  then show ?case by simp
next
  case (Cons p ps)
  have nn: "0 \<le> sum_list (map sint ps)"
    by (rule sum_list_nonneg) (use Cons.prems(2) in auto)
  have p: "0 \<le> sint p"
    using Cons.prems(2) by simp
  have lt: "sint acc + sint p < 2 ^ 63"
    using Cons.prems(3) nn by simp
  note pl = int8pl_nonneg [OF Cons.prems(1) p lt]
  have "0 \<le> sint (acc + p)" "\<forall>q\<in>set ps. 0 \<le> sint q"
    "sint (acc + p) + sum_list (map sint ps) < 2 ^ 63"
    using Cons.prems p pl(2) by simp_all
  from Cons.IH [OF this] pl show ?case
    by (simp add: add.assoc)
qed

lemma transfer_all_workers:
  "int (length (concat parts)) < 2 ^ 63 \<Longrightarrow>
   transfer_all (map count_worker parts) = Inr (map (\<lambda>p. of_nat (length p)) parts) \<and>
   sum_list (map (\<lambda>p. sint (of_nat (length p) :: int8)) parts) = int (length (concat parts)) \<and>
   sum_list (map (\<lambda>p. of_nat (length p)) parts) = (of_nat (length (concat parts)) :: int8)"
proof (induction parts)
  case Nil
  then show ?case by simp
next
  case (Cons p parts)
  have "int (length p) < 2 ^ 63" "int (length (concat parts)) < 2 ^ 63"
    using Cons.prems by simp_all
  from count_worker_length [OF this(1)] Cons.IH [OF this(2)] show ?case
    by simp
qed

lemma count_sequential_length:
  assumes "int (length rows) < 2 ^ 63"
  shows "count_sequential rows = Inr (of_nat (length rows))"
  by (simp add: count_sequential_def count_finalize_def count_worker_length(1) [OF assms])

lemma count_parallel_length:
  assumes "int (length (concat parts)) < 2 ^ 63"
  shows "count_parallel parts = Inr (of_nat (length (concat parts)))"
proof (cases parts)
  case Nil
  then show ?thesis
    by (simp add: count_parallel_def count_finalize_def count_initialize_def)
next
  case (Cons p ps)
  let ?s = "of_nat (length p) :: int8" and ?ss = "map (\<lambda>p. of_nat (length p) :: int8) ps"
  have lp: "int (length p) < 2 ^ 63" and lps: "int (length (concat ps)) < 2 ^ 63"
    using assms Cons by simp_all
  note w = count_worker_length [OF lp]
  note t = transfer_all_workers [OF lps]
  have nn: "\<forall>q\<in>set ?ss. 0 \<le> sint q"
  proof
    fix q assume "q \<in> set ?ss"
    then obtain r where "r \<in> set ps" "q = of_nat (length r)" by auto
    moreover have "int (length r) < 2 ^ 63"
      using lps \<open>r \<in> set ps\<close> by (induction ps) auto
    ultimately show "0 \<le> sint q"
      using count_worker_length(2) [of r] by simp
  qed
  have "sum_list (map sint ?ss) = int (length (concat ps))"
    using t by (simp add: comp_def)
  then have "sint ?s + sum_list (map sint ?ss) < 2 ^ 63"
    using assms Cons w(2) by simp
  from combine_all_sum [OF _ nn this] w(2)
  have "combine_all ?s ?ss = Inr (?s + sum_list ?ss)"
    by simp
  with t w(1) Cons show ?thesis
    by (simp add: count_parallel_def count_finalize_def)
qed

text \<open>
  Partition invariance of count: however the rows are split, the combined partial states
  finalize to the result of one worker over all the rows, as long as the number of rows
  fits in \<^verbatim>\<open>int8\<close>.
\<close>

lemma count_partition_invariance:
  "int (length (concat parts)) < 2 ^ 63 \<Longrightarrow> count_parallel parts = count_sequential (concat parts)"
  by (simp add: count_parallel_length count_sequential_length)

lemma length_concat_uniform:
  "\<forall>p\<in>set parts. length p = n \<Longrightarrow> length (concat parts) = length parts * n"
  by (induction parts) simp_all

text \<open>
  C4. For the count aggregate (state \<^verbatim>\<open>int8\<close> seeded with 0, a transition function that
  adds 1 per row, no final function, combine function \<^verbatim>\<open>int8pl\<close>): 1000 input rows in
  4 partitions of 250 rows each, aggregated partition by partition, combined and finalized,
  give 1000 without a failure, and so does sequential aggregation over the 1000 rows.
\<close>

theorem count_four_partitions:
  assumes "length parts = 4" and "\<forall>p\<in>set parts. length p = 250"
  shows "length (concat parts) = 1000 \<and> count_parallel parts = Inr 1000 \<and>
         count_sequential (concat parts) = Inr 1000"
proof -
  have len: "length (concat parts) = 1000"
    using length_concat_uniform [OF assms(2)] assms(1) by simp
  then have "int (length (concat parts)) < 2 ^ 63"
    by simp
  from count_parallel_length [OF this] count_sequential_length [OF this] len show ?thesis
    by simp
qed

theorem count_four_partitions_witness:
  "length (replicate 4 (replicate 250 ())) = 4 \<and>
   list_all (\<lambda>p. length p = 250) (replicate 4 (replicate 250 ())) \<and>
   count_parallel (replicate 4 (replicate 250 ())) = Inr 1000 \<and>
   count_sequential (concat (replicate 4 (replicate 250 ()))) = Inr 1000"
  using count_four_partitions [of "replicate 4 (replicate 250 ())"]
  by (simp add: list_all_iff)

subsection \<open>count: associativity of the combine function\<close>



lemma count_worker_reachable: "count_worker rows = Inr s \<Longrightarrow> count_reachable s"
proof -
  have "count_reachable s \<Longrightarrow> advance_all s rows = Inr t \<Longrightarrow> count_reachable t" for s t
  proof (induction rows arbitrary: s)
    case Nil
    then show ?case by simp
  next
    case (Cons row rows)
    from Cons.prems(2) obtain s' where s': "int8inc s = Inr s'" "advance_all s' rows = Inr t"
      by (auto simp: count_advance_def split: sum.splits)
    from Cons.IH [OF count_reachable.transition [OF Cons.prems(1) s'(1)] s'(2)] show ?case .
  qed
  from this [OF count_reachable.seed] show "count_worker rows = Inr s \<Longrightarrow> count_reachable s"
    by (simp add: count_worker_def)
qed






subsection \<open>max: any delivery order\<close>

text \<open>What the relation registers for max over \<^verbatim>\<open>int8\<close> and \<^verbatim>\<open>int4\<close>.\<close>

lemma max_registration:
  "agg_2115 \<in> set pg_aggregate \<and> aggtransfn agg_2115 = ''int8larger'' \<and>
   \<not> regproc_present (aggfinalfn agg_2115) \<and> oid_present (aggsortop agg_2115) \<and>
   agginitval agg_2115 = None \<and> aggkind agg_2115 = AGGKIND_NORMAL \<and>
   agg_2116 \<in> set pg_aggregate \<and> aggtransfn agg_2116 = ''int4larger'' \<and>
   \<not> regproc_present (aggfinalfn agg_2116) \<and> oid_present (aggsortop agg_2116) \<and>
   agginitval agg_2116 = None \<and> aggkind agg_2116 = AGGKIND_NORMAL"
  by (simp add: pg_aggregate_def section_defs)
    (simp add: agg_2115_def agg_2116_def present_defs kind_defs)

lemma sint_int4larger: "sint (int4larger a b) = max (sint a) (sint b)"
  by (simp add: int4larger_def max_def)

lemma sint_int8larger: "sint (int8larger a b) = max (sint a) (sint b)"
  by (simp add: int8larger_def max_def)

lemma Max_insert_max:
  fixes a b :: int
  shows "finite S \<Longrightarrow> Max (insert (max a b) S) = max a (Max (insert b S))"
  by (cases "S = {}") (simp_all add: max.assoc)

text \<open>
  Folding a transition function that returns the larger of two signed values leaves the
  largest of the seed and the inputs in the state.
\<close>

lemma sint_fold_larger:
  fixes f :: "'a::len word \<Rightarrow> 'a word \<Rightarrow> 'a word"
  assumes f: "\<And>a b. sint (f a b) = max (sint a) (sint b)"
  shows "sint (fold (\<lambda>x s. f s x) xs s) = Max (insert (sint s) (sint ` set xs))"
proof (induction xs arbitrary: s)
  case Nil
  show ?case by simp
next
  case (Cons x xs)
  have "sint (fold (\<lambda>x s. f s x) (x # xs) s) =
        Max (insert (max (sint s) (sint x)) (sint ` set xs))"
    by (simp add: Cons.IH f)
  also have "\<dots> = max (sint s) (Max (insert (sint x) (sint ` set xs)))"
    by (rule Max_insert_max) simp
  finally show ?case
    by simp
qed

lemma fold_unseeded_Some:
  "fold (\<lambda>x st. unseeded_advance f st x) xs (Some s) = Some (fold (\<lambda>x s. f s x) xs s)"
  by (induction xs arbitrary: s) (simp_all add: unseeded_advance_def)

lemma unseeded_max:
  fixes f :: "'a::len word \<Rightarrow> 'a word \<Rightarrow> 'a word"
  assumes f: "\<And>a b. sint (f a b) = max (sint a) (sint b)" and ne: "xs \<noteq> []"
  shows "\<exists>r. fold (\<lambda>x st. unseeded_advance f st x) xs None = Some r \<and>
             sint r = Max (sint ` set xs)"
proof (cases xs)
  case Nil
  with ne show ?thesis by simp
next
  case (Cons y ys)
  have "unseeded_advance f None y = Some y"
    by (simp add: unseeded_advance_def)
  with Cons show ?thesis
    by (simp add: fold_unseeded_Some sint_fold_larger [OF f])
qed

lemma int4_max_permuted:
  assumes "mset ys = mset [3, 1, 4, 1, 5, 9, 2, 6]"
  shows "int4_max ys = Some 9"
proof -
  have s: "set ys = {3, 1, 4, 5, 9, 2, 6}"
    using mset_eq_setD [OF assms] by auto
  then have "ys \<noteq> []" by auto
  from unseeded_max [OF sint_int4larger this]
  obtain r where r: "int4_max ys = Some r" "sint r = Max (sint ` set ys)"
    by (auto simp: int4_max_def)
  have "sint r = sint (9 :: int4)"
    by (simp add: r s)
  then have "r = 9"
    by (rule signed_word_eqI)
  with r show ?thesis
    by simp
qed

lemma int8_max_permuted:
  assumes "mset ys = mset [3, 1, 4, 1, 5, 9, 2, 6]"
  shows "int8_max ys = Some 9"
proof -
  have s: "set ys = {3, 1, 4, 5, 9, 2, 6}"
    using mset_eq_setD [OF assms] by auto
  then have "ys \<noteq> []" by auto
  from unseeded_max [OF sint_int8larger this]
  obtain r where r: "int8_max ys = Some r" "sint r = Max (sint ` set ys)"
    by (auto simp: int8_max_def)
  have "sint r = sint (9 :: int8)"
    by (simp add: r s)
  then have "r = 9"
    by (rule signed_word_eqI)
  with r show ?thesis
    by simp
qed

text \<open>
  C6. For the max aggregates over \<^verbatim>\<open>int4\<close> and \<^verbatim>\<open>int8\<close> (transition function
  \<^verbatim>\<open>int4larger\<close>, \<^verbatim>\<open>int8larger\<close>, no final function, no initial value, so that the
  first input seeds the state): the inputs 3, 1, 4, 1, 5, 9, 2, 6, delivered in any order,
  finalize to 9.
\<close>

theorem max_any_delivery_order:
  "mset ys = mset [3, 1, 4, 1, 5, 9, 2, 6] \<Longrightarrow> mset zs = mset [3, 1, 4, 1, 5, 9, 2, 6] \<Longrightarrow>
   int4_max ys = Some 9 \<and> int8_max zs = Some 9"
  by (simp add: int4_max_permuted int8_max_permuted)

theorem max_any_delivery_order_witness:
  "mset [9, 6, 5, 4, 3, 2, 1, 1 :: int4] = mset [3, 1, 4, 1, 5, 9, 2, 6] \<and>
   mset [1, 1, 2, 3, 4, 5, 6, 9 :: int8] = mset [3, 1, 4, 1, 5, 9, 2, 6] \<and>
   int4_max [9, 6, 5, 4, 3, 2, 1, 1] = Some 9 \<and> int8_max [1, 1, 2, 3, 4, 5, 6, 9] = Some 9"
  using max_any_delivery_order [of "[9, 6, 5, 4, 3, 2, 1, 1]" "[1, 1, 2, 3, 4, 5, 6, 9]"]
  by simp

end
